theory Spec2Isabelle
  imports Complex_Main "HOL-Library.Monad_Syntax"
begin

section \<open>Numeric model\<close>

text \<open>
  The plugin \<^verbatim>\<open>GameplayUtils\<close> exposes three static functions of
  \<^verbatim>\<open>UGameplayUtilsBPLibrary\<close> (file \<^verbatim>\<open>GameplayUtilsBPLibrary.cpp\<close>).
  They compute on the engine's \<^verbatim>\<open>float\<close>, \<^verbatim>\<open>FVector\<close>, \<^verbatim>\<open>FRotator\<close> and
  \<^verbatim>\<open>FQuat\<close> types.

  In \<open>SmoothRotatorInterp\<close> and \<open>CalculateJumpVelocity\<close> a \<^verbatim>\<open>float\<close> is modelled by a
  \<^typ>\<open>real\<close>: addition, subtraction, multiplication, square root and the trigonometric
  functions are exact, so rounding and overflow are not part of the model there, and every
  equation about these two functions is an equation of the exact values of which the machine
  computes approximations. What the model does keep of IEEE-754 is where a finite operand
  gives no finite result: a division by zero and the reciprocal square root of zero return
  \<open>None\<close>, so each such operation of the source is a branch of the model and "the result is
  \<open>Some v\<close>" says that no infinity and no NaN arose.

  \<open>FindClosestActor\<close> compares distances, and there the rounding decides which actor is
  returned; its model takes the distance as the machine computes it (see below).
\<close>

definition MAX_FLT :: real where
  \<comment> \<open>\<^verbatim>\<open>#define MAX_FLT 3.402823466e+38F\<close>: the largest finite 32-bit float\<close>
  "MAX_FLT = (2 ^ 24 - 1) * 2 ^ 104"

definition SMALL_NUMBER :: real where
  \<comment> \<open>\<^verbatim>\<open>#define SMALL_NUMBER (1.e-8f)\<close>: the value of the float literal, the float nearest to
      one hundred-millionth, a little below it\<close>
  "SMALL_NUMBER = 11258999 / 2 ^ 50"

definition fdiv :: "real \<Rightarrow> real \<Rightarrow> real option" where
  \<comment> \<open>\<^verbatim>\<open>a / b\<close> on floats: not finite when \<^verbatim>\<open>b\<close> is zero\<close>
  "fdiv a b = (if b = 0 then None else Some (a / b))"

definition FMath_InvSqrt :: "real \<Rightarrow> real option" where
  \<comment> \<open>\<^verbatim>\<open>FMath::InvSqrt(F)\<close>, the reciprocal square root: infinite at 0, NaN below\<close>
  "FMath_InvSqrt F = (if F \<le> 0 then None else Some (1 / sqrt F))"

section \<open>FVector\<close>

record FVector =
  X :: real
  Y :: real
  Z :: real

definition FVector_minus :: "FVector \<Rightarrow> FVector \<Rightarrow> FVector" where
  \<comment> \<open>\<^verbatim>\<open>FVector::operator-(const FVector& V)\<close>\<close>
  "FVector_minus A B =
     \<lparr>FVector.X = FVector.X A - FVector.X B,
      FVector.Y = FVector.Y A - FVector.Y B,
      FVector.Z = FVector.Z A - FVector.Z B\<rparr>"

definition FVector_scale :: "FVector \<Rightarrow> real \<Rightarrow> FVector" where
  \<comment> \<open>\<^verbatim>\<open>FVector::operator*(float Scale)\<close>\<close>
  "FVector_scale V Scale =
     \<lparr>FVector.X = FVector.X V * Scale,
      FVector.Y = FVector.Y V * Scale,
      FVector.Z = FVector.Z V * Scale\<rparr>"

definition FVector_SizeSquared :: "FVector \<Rightarrow> real" where
  "FVector_SizeSquared V =
     FVector.X V * FVector.X V + FVector.Y V * FVector.Y V + FVector.Z V * FVector.Z V"

definition FVector_Size :: "FVector \<Rightarrow> real" where
  \<comment> \<open>\<^verbatim>\<open>FVector::Size()\<close>: \<^verbatim>\<open>FMath::Sqrt(X*X + Y*Y + Z*Z)\<close>\<close>
  "FVector_Size V = sqrt (FVector_SizeSquared V)"

definition FVector_Distance :: "FVector \<Rightarrow> FVector \<Rightarrow> real" where
  \<comment> \<open>\<^verbatim>\<open>FVector::Distance(V1, V2)\<close>: \<^verbatim>\<open>FMath::Sqrt(FVector::DistSquared(V1, V2))\<close>\<close>
  "FVector_Distance V1 V2 = sqrt (FVector_SizeSquared (FVector_minus V2 V1))"

definition FVector_Normalize :: "FVector \<Rightarrow> FVector option" where
  \<comment> \<open>\<^verbatim>\<open>FVector::Normalize(float Tolerance = SMALL_NUMBER)\<close>, in place; the value is the
      vector afterwards. The engine scales only a vector whose squared length is above the
      tolerance and leaves any other as it is:
      \<^verbatim>\<open>const float SquareSum = X*X + Y*Y + Z*Z;
        if (SquareSum > Tolerance) { const float Scale = FMath::InvSqrt(SquareSum);
          X *= Scale; Y *= Scale; Z *= Scale; return true; }
        return false;\<close>\<close>
  "FVector_Normalize V =
     (let SquareSum = FVector_SizeSquared V in
      if SquareSum > SMALL_NUMBER
      then do { Scale \<leftarrow> FMath_InvSqrt SquareSum; Some (FVector_scale V Scale) }
      else Some V)"

section \<open>FindClosestActor\<close>

text \<open>
  An \<^verbatim>\<open>AActor*\<close> is a value of \<open>'a option\<close>: \<open>None\<close> is \<^verbatim>\<open>nullptr\<close>, \<open>Some a\<close> points to
  the actor \<open>a\<close>. The world gives every actor its location. \<^verbatim>\<open>Actor->GetActorLocation()\<close>
  dereferences the pointer, which is a fault on \<^verbatim>\<open>nullptr\<close>. The two out-parameters and the
  list of the pointers that \<^verbatim>\<open>GetActorLocation\<close> was called on, in call order, are the state
  that the loop threads.

  The source stores the distance in a \<^verbatim>\<open>float\<close> before it compares:
  \<^verbatim>\<open>const float Distance = FVector::Distance(SourceLocation, Actor->GetActorLocation());\<close>
  The value of that variable is the engine's distance, computed in the engine's arithmetic
  (single or double precision, by the engine version) and narrowed to \<^verbatim>\<open>float\<close>: two
  locations at different distances can get the same \<^verbatim>\<open>Distance\<close>, and a distance too large
  for a \<^verbatim>\<open>float\<close> gets \<open>+\<infinity>\<close>. The model takes this computation as the parameter \<open>Dist\<close>, so
  that what is proved of the loop holds whatever the rounding is: \<open>Dist V1 V2\<close> is \<open>Some d\<close>
  when \<^verbatim>\<open>Distance\<close> is the finite float \<open>d\<close>, and \<open>None\<close> when it is \<open>+\<infinity>\<close>. (On finite
  locations it is never NaN: it is the square root of a sum of squares.) An infinite
  \<^verbatim>\<open>Distance\<close> is not less than any \<^verbatim>\<open>OutClosestDistance\<close>, so \<^verbatim>\<open>OutClosestDistance\<close> is always
  a finite float.
\<close>

datatype fault = NullDereference

definition GetActorLocation :: "('a \<Rightarrow> FVector) \<Rightarrow> 'a option \<Rightarrow> fault + FVector" where
  "GetActorLocation world Actor =
     (case Actor of None \<Rightarrow> Inl NullDereference | Some a \<Rightarrow> Inr (world a))"

record 'a finder =
  OutClosestActor :: "'a option"
  OutClosestDistance :: real
  located :: "'a option list"

fun FindClosestActor_loop ::
  "(FVector \<Rightarrow> FVector \<Rightarrow> real option) \<Rightarrow> ('a \<Rightarrow> FVector) \<Rightarrow> FVector \<Rightarrow> 'a option list \<Rightarrow>
     'a finder \<Rightarrow> fault + 'a finder" where
  "FindClosestActor_loop Dist world SourceLocation [] st = Inr st"
| "FindClosestActor_loop Dist world SourceLocation (Actor # rest) st =
     (if Actor = None then FindClosestActor_loop Dist world SourceLocation rest st
      else
        (case GetActorLocation world Actor of
           Inl e \<Rightarrow> Inl e
         | Inr loc \<Rightarrow>
             (let Distance = Dist SourceLocation loc;
                  st1 = st\<lparr>located := located st @ [Actor]\<rparr>
              in case Distance of
                   None \<Rightarrow> FindClosestActor_loop Dist world SourceLocation rest st1
                 | Some d \<Rightarrow>
                     if d < OutClosestDistance st1
                     then FindClosestActor_loop Dist world SourceLocation rest
                            (st1\<lparr>OutClosestDistance := d, OutClosestActor := Actor\<rparr>)
                     else FindClosestActor_loop Dist world SourceLocation rest st1)))"

definition FindClosestActor ::
  "(FVector \<Rightarrow> FVector \<Rightarrow> real option) \<Rightarrow> ('a \<Rightarrow> FVector) \<Rightarrow> FVector \<Rightarrow> 'a option list \<Rightarrow>
     fault + (bool \<times> 'a finder)" where
  "FindClosestActor Dist world SourceLocation ActorArray =
     (let st = \<lparr>OutClosestActor = None, OutClosestDistance = MAX_FLT, located = []\<rparr>
      in if length ActorArray = 0 then Inr (False, st)
         else
           (case FindClosestActor_loop Dist world SourceLocation ActorArray st of
              Inl e \<Rightarrow> Inl e
            | Inr st' \<Rightarrow> Inr (OutClosestActor st' \<noteq> None, st')))"

text \<open>
  For the examples, one distance computation in full: the exact distance narrowed to a
  32-bit float by rounding to nearest, ties to even, with overflow to infinity. On the
  example inputs below it is the value that the machine computes when the engine's vectors
  are double precision. When they are single precision the machine computes the same value
  on \<open>S5_world\<close> and on \<open>near_world\<close> (where the sum of squares \<open>1000000 + 1/64\<close> rounds to
  \<open>1000000\<close>), and \<open>+\<infinity>\<close> on \<open>far_world\<close>, which is not less than \<open>MAX_FLT\<close> either.
\<close>

definition float32_exponent :: "real \<Rightarrow> int" where
  \<comment> \<open>the binary exponent of the float format at the magnitude \<open>a > 0\<close>; subnormal below
      \<open>2 powr - 126\<close>\<close>
  "float32_exponent a = max \<lfloor>log 2 a\<rfloor> (- 126)"

definition float32_ulp :: "real \<Rightarrow> real" where
  \<comment> \<open>the distance between neighbouring floats at the magnitude \<open>a\<close>: 24 significant bits\<close>
  "float32_ulp a = 2 powr of_int (float32_exponent a - 23)"

definition round_half_even :: "real \<Rightarrow> int" where
  "round_half_even q =
     (let n = \<lfloor>q\<rfloor>; r = q - of_int n
      in if r < 1 / 2 then n else if 1 / 2 < r then n + 1 else if even n then n else n + 1)"

definition to_float32 :: "real \<Rightarrow> real option" where
  \<comment> \<open>the conversion to \<^verbatim>\<open>float\<close>; \<open>None\<close> is an infinity\<close>
  "to_float32 x =
     (if x = 0 then Some 0
      else
        (let a = \<bar>x\<bar>;
             r = of_int (round_half_even (a / float32_ulp a)) * float32_ulp a
         in if MAX_FLT < r then None else Some (sgn x * r)))"

definition float32_Distance :: "FVector \<Rightarrow> FVector \<Rightarrow> real option" where
  "float32_Distance V1 V2 = to_float32 (FVector_Distance V1 V2)"

section \<open>CalculateJumpVelocity\<close>

text \<open>
  The result is \<open>None\<close> when a component of the returned vector is not finite. The two
  divisions by \<^verbatim>\<open>JumpTime\<close> and the reciprocal square root inside \<^verbatim>\<open>Normalize\<close> are the
  operations that can cause it; a factor that is not finite stays so through the
  multiplications that follow it.
\<close>

definition CalculateJumpVelocity :: "FVector \<Rightarrow> FVector \<Rightarrow> real \<Rightarrow> real \<Rightarrow> FVector option" where
  "CalculateJumpVelocity StartPos TargetPos GravityZ JumpTime =
     (let Direction = FVector_minus TargetPos StartPos;
          ZDiff = FVector.Z Direction;
          Direction = Direction\<lparr>FVector.Z := 0\<rparr>;
          XYDistance = FVector_Size Direction
      in do {
        Direction \<leftarrow> FVector_Normalize Direction;
        Speed \<leftarrow> fdiv XYDistance JumpTime;
        let XYVelocity = FVector_scale Direction Speed;
        ZVelocity \<leftarrow> fdiv (ZDiff - 0.5 * GravityZ * JumpTime * JumpTime) JumpTime;
        Some \<lparr>FVector.X = FVector.X XYVelocity, FVector.Y = FVector.Y XYVelocity,
              FVector.Z = ZVelocity\<rparr>
      })"

definition ballistic_position :: "FVector \<Rightarrow> FVector \<Rightarrow> real \<Rightarrow> real \<Rightarrow> FVector" where
  \<comment> \<open>the position at time \<open>t\<close> of a projectile launched from \<open>start\<close> with velocity \<open>v0\<close>
      under the constant acceleration \<open>(0, 0, g)\<close>: \<open>start + v0 t + (0, 0, g) t\<^sup>2 / 2\<close>\<close>
  "ballistic_position start v0 g t =
     \<lparr>FVector.X = FVector.X start + FVector.X v0 * t,
      FVector.Y = FVector.Y start + FVector.Y v0 * t,
      FVector.Z = FVector.Z start + FVector.Z v0 * t + 0.5 * g * t * t\<rparr>"

definition XYSquareSum :: "FVector \<Rightarrow> FVector \<Rightarrow> real" where
  \<comment> \<open>the squared length of the horizontal offset from \<open>StartPos\<close> to \<open>TargetPos\<close>, which is
      the \<^verbatim>\<open>SquareSum\<close> that \<^verbatim>\<open>Direction.Normalize()\<close> compares with its tolerance\<close>
  "XYSquareSum StartPos TargetPos =
     (FVector.X TargetPos - FVector.X StartPos) * (FVector.X TargetPos - FVector.X StartPos) +
     (FVector.Y TargetPos - FVector.Y StartPos) * (FVector.Y TargetPos - FVector.Y StartPos)"

section \<open>SmoothRotatorInterp\<close>

text \<open>
  \<^verbatim>\<open>FRotator\<close> holds Euler angles in degrees, \<^verbatim>\<open>FQuat\<close> a quaternion. The conversions
  between them, \<^verbatim>\<open>FQuat::Slerp\<close> and the \<^verbatim>\<open>FMath\<close> helpers are the engine's; each is written
  here as the engine defines it, with the exact function in place of the engine's
  polynomial approximations of sine, cosine, arc sine and arc tangent.
\<close>

record FRotator =
  Pitch :: real
  Yaw :: real
  Roll :: real

record FQuat =
  X :: real
  Y :: real
  Z :: real
  W :: real

definition FMath_Clamp :: "real \<Rightarrow> real \<Rightarrow> real \<Rightarrow> real" where
  \<comment> \<open>\<^verbatim>\<open>FMath::Clamp(X, Min, Max)\<close>: \<^verbatim>\<open>X < Min ? Min : X < Max ? X : Max\<close>\<close>
  "FMath_Clamp x MinValue MaxValue =
     (if x < MinValue then MinValue else if x < MaxValue then x else MaxValue)"

definition FMath_FloatSelect :: "real \<Rightarrow> real \<Rightarrow> real \<Rightarrow> real" where
  \<comment> \<open>\<^verbatim>\<open>FMath::FloatSelect(Comparand, ValueGEZero, ValueLTZero)\<close>\<close>
  "FMath_FloatSelect Comparand ValueGEZero ValueLTZero =
     (if Comparand \<ge> 0 then ValueGEZero else ValueLTZero)"

definition FMath_TruncToFloat :: "real \<Rightarrow> real" where
  \<comment> \<open>rounding toward zero\<close>
  "FMath_TruncToFloat x = (if x \<ge> 0 then of_int \<lfloor>x\<rfloor> else of_int \<lceil>x\<rceil>)"

definition FMath_Fmod :: "real \<Rightarrow> real \<Rightarrow> real" where
  \<comment> \<open>\<^verbatim>\<open>FMath::Fmod(X, Y)\<close>: 0 when \<^verbatim>\<open>|Y| <= SMALL_NUMBER\<close>, else the remainder of the
      division truncated toward zero, which has the sign of \<^verbatim>\<open>X\<close>\<close>
  "FMath_Fmod x y =
     (if \<bar>y\<bar> \<le> SMALL_NUMBER then 0 else x - y * FMath_TruncToFloat (x / y))"

definition FMath_Atan2 :: "real \<Rightarrow> real \<Rightarrow> real" where
  \<comment> \<open>\<^verbatim>\<open>FMath::Atan2(Y, X)\<close>: the angle of the point \<open>(x, y)\<close> in \<open>(-\<pi>, \<pi>]\<close>, 0 at the origin\<close>
  "FMath_Atan2 y x =
     (if x > 0 then arctan (y / x)
      else if x < 0 then (if y \<ge> 0 then arctan (y / x) + pi else arctan (y / x) - pi)
      else if y > 0 then pi / 2
      else if y < 0 then - (pi / 2)
      else 0)"

definition FRotator_ClampAxis :: "real \<Rightarrow> real" where
  \<comment> \<open>\<^verbatim>\<open>FRotator::ClampAxis(Angle)\<close>: into \<open>[0, 360)\<close>\<close>
  "FRotator_ClampAxis Angle =
     (let Angle = FMath_Fmod Angle 360 in if Angle < 0 then Angle + 360 else Angle)"

definition FRotator_NormalizeAxis :: "real \<Rightarrow> real" where
  \<comment> \<open>\<^verbatim>\<open>FRotator::NormalizeAxis(Angle)\<close>: into \<open>(-180, 180]\<close>\<close>
  "FRotator_NormalizeAxis Angle =
     (let Angle = FRotator_ClampAxis Angle in if Angle > 180 then Angle - 360 else Angle)"

definition FRotator_Quaternion :: "FRotator \<Rightarrow> FQuat" where
  \<comment> \<open>\<^verbatim>\<open>FRotator::Quaternion()\<close>:
      \<^verbatim>\<open>const float DEG_TO_RAD = PI/(180.f); const float RADS_DIVIDED_BY_2 = DEG_TO_RAD/2.f;
        const float PitchNoWinding = FMath::Fmod(Pitch, 360.0f); (Yaw and Roll alike)
        FMath::SinCos(&SP, &CP, PitchNoWinding * RADS_DIVIDED_BY_2); (Yaw and Roll alike)
        RotationQuat.X =  CR*SP*SY - SR*CP*CY;
        RotationQuat.Y = -CR*SP*CY - SR*CP*SY;
        RotationQuat.Z =  CR*CP*SY - SR*SP*CY;
        RotationQuat.W =  CR*CP*CY + SR*SP*SY;\<close>\<close>
  "FRotator_Quaternion R =
     (let RADS_DIVIDED_BY_2 = (pi / 180) / 2;
          PitchNoWinding = FMath_Fmod (Pitch R) 360;
          YawNoWinding = FMath_Fmod (Yaw R) 360;
          RollNoWinding = FMath_Fmod (Roll R) 360;
          SP = sin (PitchNoWinding * RADS_DIVIDED_BY_2);
          CP = cos (PitchNoWinding * RADS_DIVIDED_BY_2);
          SY = sin (YawNoWinding * RADS_DIVIDED_BY_2);
          CY = cos (YawNoWinding * RADS_DIVIDED_BY_2);
          SR = sin (RollNoWinding * RADS_DIVIDED_BY_2);
          CR = cos (RollNoWinding * RADS_DIVIDED_BY_2)
      in \<lparr>FQuat.X = CR * SP * SY - SR * CP * CY,
          FQuat.Y = - CR * SP * CY - SR * CP * SY,
          FQuat.Z = CR * CP * SY - SR * SP * CY,
          FQuat.W = CR * CP * CY + SR * SP * SY\<rparr>)"

definition FQuat_Rotator :: "FQuat \<Rightarrow> FRotator" where
  \<comment> \<open>\<^verbatim>\<open>FQuat::Rotator()\<close>:
      \<^verbatim>\<open>const float SingularityTest = Z*X - W*Y;
        const float YawY = 2.f*(W*Z + X*Y);
        const float YawX = (1.f - 2.f*(FMath::Square(Y) + FMath::Square(Z)));
        const float SINGULARITY_THRESHOLD = 0.4999995f;
        const float RAD_TO_DEG = (180.f)/PI;
        if (SingularityTest < -SINGULARITY_THRESHOLD) {
          Pitch = -90.f; Yaw = FMath::Atan2(YawY, YawX) * RAD_TO_DEG;
          Roll = FRotator::NormalizeAxis(-Yaw - (2.f * FMath::Atan2(X, W) * RAD_TO_DEG)); }
        else if (SingularityTest > SINGULARITY_THRESHOLD) {
          Pitch = 90.f; Yaw = FMath::Atan2(YawY, YawX) * RAD_TO_DEG;
          Roll = FRotator::NormalizeAxis(Yaw - (2.f * FMath::Atan2(X, W) * RAD_TO_DEG)); }
        else {
          Pitch = FMath::FastAsin(2.f*(SingularityTest)) * RAD_TO_DEG;
          Yaw = FMath::Atan2(YawY, YawX) * RAD_TO_DEG;
          Roll = FMath::Atan2(-2.f*(W*X + Y*Z),
                              (1.f - 2.f*(FMath::Square(X) + FMath::Square(Y)))) * RAD_TO_DEG; }\<close>\<close>
  "FQuat_Rotator Q =
     (let x = FQuat.X Q; y = FQuat.Y Q; z = FQuat.Z Q; w = FQuat.W Q;
          SingularityTest = z * x - w * y;
          YawY = 2 * (w * z + x * y);
          YawX = 1 - 2 * (y * y + z * z);
          SINGULARITY_THRESHOLD = 0.4999995;
          RAD_TO_DEG = 180 / pi;
          Yaw = FMath_Atan2 YawY YawX * RAD_TO_DEG
      in if SingularityTest < - SINGULARITY_THRESHOLD
         then \<lparr>Pitch = - 90, Yaw = Yaw,
               Roll = FRotator_NormalizeAxis (- Yaw - (2 * FMath_Atan2 x w * RAD_TO_DEG))\<rparr>
         else if SingularityTest > SINGULARITY_THRESHOLD
         then \<lparr>Pitch = 90, Yaw = Yaw,
               Roll = FRotator_NormalizeAxis (Yaw - (2 * FMath_Atan2 x w * RAD_TO_DEG))\<rparr>
         else \<lparr>Pitch = arcsin (2 * SingularityTest) * RAD_TO_DEG, Yaw = Yaw,
               Roll = FMath_Atan2 (- 2 * (w * x + y * z)) (1 - 2 * (x * x + y * y)) * RAD_TO_DEG\<rparr>)"

definition FQuat_dot :: "FQuat \<Rightarrow> FQuat \<Rightarrow> real" where
  \<comment> \<open>\<^verbatim>\<open>FQuat::operator|(const FQuat& Q)\<close>: the inner product\<close>
  "FQuat_dot A B =
     FQuat.X A * FQuat.X B + FQuat.Y A * FQuat.Y B + FQuat.Z A * FQuat.Z B + FQuat.W A * FQuat.W B"

definition FQuat_neg :: "FQuat \<Rightarrow> FQuat" where
  \<comment> \<open>\<^verbatim>\<open>FQuat::operator-()\<close>: the same orientation, written with the opposite sign\<close>
  "FQuat_neg Q = \<lparr>FQuat.X = - FQuat.X Q, FQuat.Y = - FQuat.Y Q, FQuat.Z = - FQuat.Z Q,
                  FQuat.W = - FQuat.W Q\<rparr>"

definition FQuat_combine :: "real \<Rightarrow> FQuat \<Rightarrow> real \<Rightarrow> FQuat \<Rightarrow> FQuat" where
  \<comment> \<open>\<^verbatim>\<open>FQuat(Scale0 * Quat1.X + Scale1 * Quat2.X, ..., Scale0 * Quat1.W + Scale1 * Quat2.W)\<close>\<close>
  "FQuat_combine Scale0 Quat1 Scale1 Quat2 =
     \<lparr>FQuat.X = Scale0 * FQuat.X Quat1 + Scale1 * FQuat.X Quat2,
      FQuat.Y = Scale0 * FQuat.Y Quat1 + Scale1 * FQuat.Y Quat2,
      FQuat.Z = Scale0 * FQuat.Z Quat1 + Scale1 * FQuat.Z Quat2,
      FQuat.W = Scale0 * FQuat.W Quat1 + Scale1 * FQuat.W Quat2\<rparr>"

definition FQuat_scale :: "FQuat \<Rightarrow> real \<Rightarrow> FQuat" where
  \<comment> \<open>\<^verbatim>\<open>X *= Scale; Y *= Scale; Z *= Scale; W *= Scale;\<close>\<close>
  "FQuat_scale Q Scale =
     \<lparr>FQuat.X = FQuat.X Q * Scale, FQuat.Y = FQuat.Y Q * Scale, FQuat.Z = FQuat.Z Q * Scale,
      FQuat.W = FQuat.W Q * Scale\<rparr>"

definition FQuat_Identity :: FQuat where
  "FQuat_Identity = \<lparr>FQuat.X = 0, FQuat.Y = 0, FQuat.Z = 0, FQuat.W = 1\<rparr>"

definition FQuat_AngularDistance :: "FQuat \<Rightarrow> FQuat \<Rightarrow> real" where
  \<comment> \<open>\<^verbatim>\<open>FQuat::AngularDistance(const FQuat& Q)\<close>, in radians: the angle of the rotation
      that takes one orientation to the other,
      \<^verbatim>\<open>float InnerProd = X*Q.X + Y*Q.Y + Z*Q.Z + W*Q.W;
        return FMath::Acos((2 * InnerProd * InnerProd) - 1.f);\<close>\<close>
  "FQuat_AngularDistance A B = arccos (2 * FQuat_dot A B * FQuat_dot A B - 1)"

definition FQuat_sign :: "FQuat \<Rightarrow> FQuat \<Rightarrow> real" where
  \<comment> \<open>the sign that \<^verbatim>\<open>Slerp_NotNormalized\<close> gives \<^verbatim>\<open>Scale1\<close>:
      \<^verbatim>\<open>FMath::FloatSelect(RawCosom, 1.0f, -1.0f)\<close>\<close>
  "FQuat_sign q1 q2 = (if FQuat_dot q1 q2 \<ge> 0 then 1 else - 1)"

definition FQuat_Slerp_NotNormalized :: "FQuat \<Rightarrow> FQuat \<Rightarrow> real \<Rightarrow> FQuat option" where
  \<comment> \<open>\<^verbatim>\<open>FQuat::Slerp_NotNormalized(Quat1, Quat2, Slerp)\<close>:
      \<^verbatim>\<open>const float RawCosom = Quat1.X*Quat2.X + Quat1.Y*Quat2.Y + Quat1.Z*Quat2.Z + Quat1.W*Quat2.W;
        // Unaligned quats - compensate, results in taking shorter route.
        const float Cosom = FMath::FloatSelect(RawCosom, RawCosom, -RawCosom);
        float Scale0, Scale1;
        if (Cosom < 0.9999f) {
          const float Omega = FMath::Acos(Cosom);
          const float InvSin = 1.f/FMath::Sin(Omega);
          Scale0 = FMath::Sin((1.f - Slerp) * Omega) * InvSin;
          Scale1 = FMath::Sin(Slerp * Omega) * InvSin; }
        else { // Use linear interpolation.
          Scale0 = 1.0f - Slerp; Scale1 = Slerp; }
        // In keeping with our flipped Cosom:
        Scale1 = FMath::FloatSelect(RawCosom, Scale1, -Scale1);\<close>
      and the result is \<^verbatim>\<open>Scale0 * Quat1 + Scale1 * Quat2\<close>, component by component\<close>
  "FQuat_Slerp_NotNormalized Quat1 Quat2 Slerp =
     (let RawCosom = FQuat_dot Quat1 Quat2;
          Cosom = FMath_FloatSelect RawCosom RawCosom (- RawCosom)
      in do {
        (Scale0, Scale1) \<leftarrow>
          (if Cosom < 0.9999
           then do {
             let Omega = arccos Cosom;
             InvSin \<leftarrow> fdiv 1 (sin Omega);
             Some (sin ((1 - Slerp) * Omega) * InvSin, sin (Slerp * Omega) * InvSin) }
           else Some (1 - Slerp, Slerp));
        let Scale1 = FMath_FloatSelect RawCosom Scale1 (- Scale1);
        Some (FQuat_combine Scale0 Quat1 Scale1 Quat2)
      })"

definition FQuat_GetNormalized :: "FQuat \<Rightarrow> FQuat option" where
  \<comment> \<open>\<^verbatim>\<open>FQuat::GetNormalized(float Tolerance = SMALL_NUMBER)\<close>, a copy on which
      \<^verbatim>\<open>FQuat::Normalize\<close> ran:
      \<^verbatim>\<open>const float SquareSum = X*X + Y*Y + Z*Z + W*W;
        if (SquareSum >= Tolerance) { const float Scale = FMath::InvSqrt(SquareSum);
          X *= Scale; Y *= Scale; Z *= Scale; W *= Scale; }
        else { *this = FQuat::Identity; }\<close>\<close>
  "FQuat_GetNormalized Q =
     (let SquareSum = FQuat_dot Q Q in
      if SquareSum \<ge> SMALL_NUMBER
      then do { Scale \<leftarrow> FMath_InvSqrt SquareSum; Some (FQuat_scale Q Scale) }
      else Some FQuat_Identity)"

definition FQuat_Slerp :: "FQuat \<Rightarrow> FQuat \<Rightarrow> real \<Rightarrow> FQuat option" where
  \<comment> \<open>\<^verbatim>\<open>FQuat::Slerp(Quat1, Quat2, Slerp)\<close>:
      \<^verbatim>\<open>return Slerp_NotNormalized(Quat1, Quat2, Slerp).GetNormalized();\<close>\<close>
  "FQuat_Slerp Quat1 Quat2 Slerp =
     do { Q \<leftarrow> FQuat_Slerp_NotNormalized Quat1 Quat2 Slerp; FQuat_GetNormalized Q }"

definition SmoothRotatorInterp :: "FRotator \<Rightarrow> FRotator \<Rightarrow> real \<Rightarrow> real \<Rightarrow> FRotator option" where
  "SmoothRotatorInterp Current Target DeltaTime InterpSpeed =
     (let CurrentQuat = FRotator_Quaternion Current;
          TargetQuat = FRotator_Quaternion Target
      in do {
        ResultQuat \<leftarrow> FQuat_Slerp CurrentQuat TargetQuat (FMath_Clamp (DeltaTime * InterpSpeed) 0 1);
        Some (FQuat_Rotator ResultQuat)
      })"

section \<open>Example inputs\<close>

text \<open>
  The inputs at which the theorems below are instantiated. Actors are numbered. In
  \<open>S5_world\<close> actor 1 stands at \<open>(10, 0, 0)\<close> and every other actor at \<open>(5, 0, 0)\<close>;
  in \<open>far_world\<close> every actor stands at \<open>(MAX_FLT, 0, 0)\<close>; in \<open>near_world\<close> actor 1 stands at
  \<open>(1000, 1/8, 0)\<close> and every other actor at \<open>(1000, 0, 0)\<close>. All these coordinates are floats.
\<close>

definition S5_world :: "nat \<Rightarrow> FVector" where
  "S5_world a = \<lparr>FVector.X = (if a = 1 then 10 else 5), Y = 0, Z = 0\<rparr>"

definition far_world :: "nat \<Rightarrow> FVector" where
  "far_world a = \<lparr>FVector.X = MAX_FLT, Y = 0, Z = 0\<rparr>"

definition near_world :: "nat \<Rightarrow> FVector" where
  "near_world a = \<lparr>FVector.X = 1000, Y = (if a = 1 then 1 / 8 else 0), Z = 0\<rparr>"

definition origin :: FVector where
  "origin = \<lparr>FVector.X = 0, Y = 0, Z = 0\<rparr>"

definition yaw_only :: "real \<Rightarrow> FRotator" where
  \<comment> \<open>the rotator that turns by \<open>y\<close> degrees about the vertical axis\<close>
  "yaw_only y = \<lparr>Pitch = 0, Yaw = y, Roll = 0\<rparr>"


section \<open>Properties of FindClosestActor\<close>

lemma MAX_FLT_pos: "0 < MAX_FLT"
  by (simp add: MAX_FLT_def)

lemma FindClosestActor_loop_None:
  "FindClosestActor_loop Dist world s (None # rest) st = FindClosestActor_loop Dist world s rest st"
  by simp

lemma FindClosestActor_loop_Some:
  "FindClosestActor_loop Dist world s (Some a # rest) st =
     (case Dist s (world a) of
        None \<Rightarrow> FindClosestActor_loop Dist world s rest (st\<lparr>located := located st @ [Some a]\<rparr>)
      | Some d \<Rightarrow>
          if d < OutClosestDistance st
          then FindClosestActor_loop Dist world s rest
                 \<lparr>OutClosestActor = Some a, OutClosestDistance = d,
                  located = located st @ [Some a]\<rparr>
          else FindClosestActor_loop Dist world s rest (st\<lparr>located := located st @ [Some a]\<rparr>))"
  by (cases st) (simp add: GetActorLocation_def Let_def split: option.split)

lemma FindClosestActor_loop_Some_far:
  assumes "\<And>d. Dist s (world a) = Some d \<Longrightarrow> \<not> d < OutClosestDistance st"
  shows "FindClosestActor_loop Dist world s (Some a # rest) st =
           FindClosestActor_loop Dist world s rest (st\<lparr>located := located st @ [Some a]\<rparr>)"
  using assms by (simp add: FindClosestActor_loop_Some del: FindClosestActor_loop.simps split: option.split)

lemma FindClosestActor_loop_Some_near:
  assumes "Dist s (world a) = Some d" and "d < OutClosestDistance st"
  shows "FindClosestActor_loop Dist world s (Some a # rest) st =
           FindClosestActor_loop Dist world s rest
             \<lparr>OutClosestActor = Some a, OutClosestDistance = d, located = located st @ [Some a]\<rparr>"
  using assms by (simp add: FindClosestActor_loop_Some del: FindClosestActor_loop.simps)

lemma FindClosestActor_loop_total:
  "\<exists>st'. FindClosestActor_loop Dist world s arr st = Inr st' \<and>
         located st' = located st @ filter (\<lambda>p. p \<noteq> None) arr"
proof (induction arr arbitrary: st)
  case Nil
  show ?case by simp
next
  case (Cons p rest)
  show ?case
  proof (cases p)
    case None
    with Cons.IH [of st] show ?thesis by simp
  next
    case (Some a)
    show ?thesis
    proof (cases "\<exists>d. Dist s (world a) = Some d \<and> d < OutClosestDistance st")
      case True
      then obtain d where d: "Dist s (world a) = Some d" "d < OutClosestDistance st" by blast
      with Some
        Cons.IH [of "\<lparr>OutClosestActor = Some a, OutClosestDistance = d,
                      located = located st @ [Some a]\<rparr>"]
      show ?thesis by (simp add: FindClosestActor_loop_Some_near del: FindClosestActor_loop.simps)
    next
      case False
      then have "FindClosestActor_loop Dist world s (Some a # rest) st =
           FindClosestActor_loop Dist world s rest (st\<lparr>located := located st @ [Some a]\<rparr>)"
        by (intro FindClosestActor_loop_Some_far) blast
      with Some Cons.IH [of "st\<lparr>located := located st @ [Some a]\<rparr>"]
      show ?thesis by simp
    qed
  qed
qed

lemma FindClosestActor_loop_keep:
  assumes "\<forall>a d. Some a \<in> set arr \<longrightarrow> Dist s (world a) = Some d \<longrightarrow> \<not> d < OutClosestDistance st"
    and "FindClosestActor_loop Dist world s arr st = Inr st'"
  shows "OutClosestActor st' = OutClosestActor st \<and> OutClosestDistance st' = OutClosestDistance st"
  using assms
proof (induction arr arbitrary: st)
  case Nil
  then show ?case by simp
next
  case (Cons p rest)
  show ?case
  proof (cases p)
    case None
    with Cons.prems Cons.IH [of st] show ?thesis by simp
  next
    case (Some a)
    with Cons.prems(1) have "\<And>d. Dist s (world a) = Some d \<Longrightarrow> \<not> d < OutClosestDistance st"
      by simp
    from FindClosestActor_loop_Some_far [of Dist s world a st rest, OF this] Some Cons.prems(2)
    have run: "FindClosestActor_loop Dist world s rest (st\<lparr>located := located st @ [Some a]\<rparr>) = Inr st'"
      by simp
    from Cons.prems(1)
    have "\<forall>b d. Some b \<in> set rest \<longrightarrow> Dist s (world b) = Some d \<longrightarrow>
            \<not> d < OutClosestDistance (st\<lparr>located := located st @ [Some a]\<rparr>)"
      by simp
    from Cons.IH [OF this run] show ?thesis by simp
  qed
qed

text \<open>
  The loop returns the first entry at the least computed distance, when one is below the
  running best it starts with.
\<close>

lemma FindClosestActor_loop_first_min:
  assumes "\<exists>a d. Some a \<in> set arr \<and> Dist s (world a) = Some d \<and> d < OutClosestDistance st"
    and "FindClosestActor_loop Dist world s arr st = Inr st'"
  shows "\<exists>pre a post d. arr = pre @ Some a # post \<and> OutClosestActor st' = Some a \<and>
           Dist s (world a) = Some d \<and> OutClosestDistance st' = d \<and> d < OutClosestDistance st \<and>
           (\<forall>b e. Some b \<in> set pre \<longrightarrow> Dist s (world b) = Some e \<longrightarrow> d < e) \<and>
           (\<forall>b e. Some b \<in> set post \<longrightarrow> Dist s (world b) = Some e \<longrightarrow> d \<le> e)"
  using assms
proof (induction arr arbitrary: st)
  case Nil
  then show ?case by simp
next
  case (Cons p rest)
  show ?case
  proof (cases p)
    case None
    with Cons.prems have ex: "\<exists>a d. Some a \<in> set rest \<and> Dist s (world a) = Some d \<and>
        d < OutClosestDistance st"
      and run: "FindClosestActor_loop Dist world s rest st = Inr st'"
      by auto
    from Cons.IH [OF ex run] obtain pre a post d where
      h: "rest = pre @ Some a # post" "OutClosestActor st' = Some a"
         "Dist s (world a) = Some d" "OutClosestDistance st' = d" "d < OutClosestDistance st"
         "\<forall>b e. Some b \<in> set pre \<longrightarrow> Dist s (world b) = Some e \<longrightarrow> d < e"
         "\<forall>b e. Some b \<in> set post \<longrightarrow> Dist s (world b) = Some e \<longrightarrow> d \<le> e"
      by blast
    have "p # rest = (None # pre) @ Some a # post" using None h(1) by simp
    moreover have "\<forall>b e. Some b \<in> set (None # pre) \<longrightarrow> Dist s (world b) = Some e \<longrightarrow> d < e"
      using h(6) by simp
    ultimately show ?thesis using h(2,3,4,5,7) by blast
  next
    case (Some c)
    show ?thesis
    proof (cases "\<exists>dc. Dist s (world c) = Some dc \<and> dc < OutClosestDistance st")
      case True
      then obtain dc where dc: "Dist s (world c) = Some dc" "dc < OutClosestDistance st" by blast
      let ?st1 = "\<lparr>OutClosestActor = Some c, OutClosestDistance = dc,
                    located = located st @ [Some c]\<rparr>"
      from FindClosestActor_loop_Some_near [of Dist s world c dc st rest] dc Some Cons.prems(2)
      have run: "FindClosestActor_loop Dist world s rest ?st1 = Inr st'" by simp
      show ?thesis
      proof (cases "\<exists>a d. Some a \<in> set rest \<and> Dist s (world a) = Some d \<and> d < dc")
        case True
        then have ex: "\<exists>a d. Some a \<in> set rest \<and> Dist s (world a) = Some d \<and>
            d < OutClosestDistance ?st1" by simp
        from Cons.IH [OF ex run] obtain pre a post d where
          h: "rest = pre @ Some a # post" "OutClosestActor st' = Some a"
             "Dist s (world a) = Some d" "OutClosestDistance st' = d" "d < dc"
             "\<forall>b e. Some b \<in> set pre \<longrightarrow> Dist s (world b) = Some e \<longrightarrow> d < e"
             "\<forall>b e. Some b \<in> set post \<longrightarrow> Dist s (world b) = Some e \<longrightarrow> d \<le> e"
          by auto
        have "p # rest = (Some c # pre) @ Some a # post" using Some h(1) by simp
        moreover have "\<forall>b e. Some b \<in> set (Some c # pre) \<longrightarrow> Dist s (world b) = Some e \<longrightarrow> d < e"
          using h(5,6) dc(1) by auto
        moreover have "d < OutClosestDistance st" using h(5) dc(2) by simp
        ultimately show ?thesis using h(2,3,4,7) by blast
      next
        case False
        then have "\<forall>a d. Some a \<in> set rest \<longrightarrow> Dist s (world a) = Some d \<longrightarrow>
            \<not> d < OutClosestDistance ?st1" by simp
        from FindClosestActor_loop_keep [OF this run]
        have k: "OutClosestActor st' = Some c" "OutClosestDistance st' = dc" by simp_all
        have "p # rest = [] @ Some c # rest" using Some by simp
        moreover have "\<forall>b e. Some b \<in> set rest \<longrightarrow> Dist s (world b) = Some e \<longrightarrow> dc \<le> e"
          using False by (auto simp: not_less)
        moreover have "\<forall>b e. Some b \<in> set ([]::'a option list) \<longrightarrow> Dist s (world b) = Some e \<longrightarrow> dc < e"
          by simp
        ultimately show ?thesis using k dc by blast
      qed
    next
      case False
      let ?st1 = "st\<lparr>located := located st @ [Some c]\<rparr>"
      from False have far: "\<And>d. Dist s (world c) = Some d \<Longrightarrow> \<not> d < OutClosestDistance st"
        by blast
      from FindClosestActor_loop_Some_far [of Dist s world c st rest, OF far] Some Cons.prems(2)
      have run: "FindClosestActor_loop Dist world s rest ?st1 = Inr st'" by simp
      from False Some Cons.prems(1)
      have ex: "\<exists>a d. Some a \<in> set rest \<and> Dist s (world a) = Some d \<and>
          d < OutClosestDistance ?st1" by auto
      from Cons.IH [OF ex run] obtain pre a post d where
        h: "rest = pre @ Some a # post" "OutClosestActor st' = Some a"
           "Dist s (world a) = Some d" "OutClosestDistance st' = d" "d < OutClosestDistance st"
           "\<forall>b e. Some b \<in> set pre \<longrightarrow> Dist s (world b) = Some e \<longrightarrow> d < e"
           "\<forall>b e. Some b \<in> set post \<longrightarrow> Dist s (world b) = Some e \<longrightarrow> d \<le> e"
        by auto
      have "p # rest = (Some c # pre) @ Some a # post" using Some h(1) by simp
      moreover have "\<forall>b e. Some b \<in> set (Some c # pre) \<longrightarrow> Dist s (world b) = Some e \<longrightarrow> d < e"
        using h(5,6) far by (auto simp: not_less)
      ultimately show ?thesis using h(2,3,4,5,7) by blast
    qed
  qed
qed

lemma FindClosestActor_run:
  "\<exists>st. FindClosestActor Dist world s arr = Inr (OutClosestActor st \<noteq> None, st) \<and>
        FindClosestActor_loop Dist world s arr
          \<lparr>OutClosestActor = None, OutClosestDistance = MAX_FLT, located = []\<rparr> = Inr st"
proof -
  let ?st0 = "\<lparr>OutClosestActor = None, OutClosestDistance = MAX_FLT, located = []\<rparr> :: 'a finder"
  from FindClosestActor_loop_total [of Dist world s arr ?st0]
  obtain st where st: "FindClosestActor_loop Dist world s arr ?st0 = Inr st" by blast
  show ?thesis
  proof (cases arr)
    case Nil
    with st show ?thesis by (auto simp: FindClosestActor_def)
  next
    case (Cons p rest)
    with st show ?thesis by (simp add: FindClosestActor_def)
  qed
qed

text \<open>Narrowing to \<^verbatim>\<open>float\<close>, and the computed distances of the example actors.\<close>

lemma float32_exponent_eq:
  assumes "2 powr of_int k \<le> a" and "a < 2 powr of_int (k + 1)" and "- 126 \<le> k"
  shows "float32_exponent a = k"
proof -
  have "0 < (2::real) powr of_int k" by simp
  with assms(1) have "0 < a" by linarith
  then have "\<lfloor>log 2 a\<rfloor> = k"
    using assms(1,2) by (simp add: floor_log_eq_powr_iff)
  with assms(3) show ?thesis by (simp add: float32_exponent_def)
qed

lemma round_half_even_below:
  assumes "of_int n \<le> q" and "q < of_int n + 1 / 2"
  shows "round_half_even q = n"
proof -
  from assms have "\<lfloor>q\<rfloor> = n" by linarith
  with assms show ?thesis by (simp add: round_half_even_def Let_def)
qed

text \<open>A value less than half a unit in the last place above a float narrows to that float.\<close>

lemma to_float32_near:
  assumes k: "2 powr of_int k \<le> a" "a < 2 powr of_int (k + 1)" "- 126 \<le> k"
    and n: "of_int n * 2 powr of_int (k - 23) \<le> a"
           "a < (of_int n + 1 / 2) * 2 powr of_int (k - 23)"
    and fin: "of_int n * 2 powr of_int (k - 23) \<le> MAX_FLT"
  shows "to_float32 a = Some (of_int n * 2 powr of_int (k - 23))"
proof -
  have "0 < (2::real) powr of_int k" by simp
  with k(1) have pos: "0 < a" by linarith
  have u: "float32_ulp a = 2 powr of_int (k - 23)"
    by (simp add: float32_ulp_def float32_exponent_eq [OF k])
  have up: "0 < (2::real) powr of_int (k - 23)" by simp
  from n up have "of_int n \<le> a / 2 powr of_int (k - 23)"
    "a / 2 powr of_int (k - 23) < of_int n + 1 / 2"
    by (simp_all add: field_simps)
  then have "round_half_even (a / 2 powr of_int (k - 23)) = n"
    by (rule round_half_even_below)
  with pos fin show ?thesis
    by (simp add: to_float32_def Let_def u)
qed

lemma to_float32_5: "to_float32 5 = Some 5"
  using to_float32_near [of 2 5 "5 * 2 ^ 21"] by (simp add: MAX_FLT_def powr_minus_divide)

lemma to_float32_10: "to_float32 10 = Some 10"
  using to_float32_near [of 3 10 "10 * 2 ^ 20"] by (simp add: MAX_FLT_def powr_minus_divide)

lemma to_float32_MAX_FLT: "to_float32 MAX_FLT = Some MAX_FLT"
  using to_float32_near [of 127 MAX_FLT "2 ^ 24 - 1"] by (simp add: MAX_FLT_def)

lemma to_float32_about_1000:
  assumes "1000 \<le> a" and "a < 1000 + 1 / 32768"
  shows "to_float32 a = Some 1000"
  using to_float32_near [of 9 a "1000 * 2 ^ 14"] assms
  by (simp add: MAX_FLT_def powr_minus_divide)

lemma FVector_Distance_along_X:
  "FVector_Distance \<lparr>FVector.X = 0, Y = 0, Z = 0\<rparr> \<lparr>FVector.X = x, Y = 0, Z = 0\<rparr> = \<bar>x\<bar>"
  by (simp add: FVector_Distance_def FVector_SizeSquared_def FVector_minus_def)

lemma S5_distance: "float32_Distance origin (S5_world a) = Some (if a = 1 then 10 else 5)"
  by (simp add: float32_Distance_def origin_def S5_world_def FVector_Distance_along_X
      to_float32_5 to_float32_10)

lemma far_distance: "float32_Distance origin (far_world a) = Some MAX_FLT"
  using MAX_FLT_pos
  by (simp add: float32_Distance_def origin_def far_world_def FVector_Distance_along_X
      to_float32_MAX_FLT)

lemma near_exact_distance:
  "FVector_Distance origin (near_world a) = (if a = 1 then sqrt (1000000 + 1 / 64) else 1000)"
proof -
  have "sqrt (1000 * 1000) = (1000::real)" unfolding real_sqrt_abs2 by simp
  then show ?thesis
    by (simp add: origin_def near_world_def FVector_Distance_def FVector_SizeSquared_def
        FVector_minus_def)
qed

lemma sqrt_near_1000:
  "1000 < sqrt (1000000 + 1 / 64)" "sqrt (1000000 + 1 / 64) < 1000 + 1 / 32768"
proof -
  have "sqrt (1000 * 1000) < sqrt (1000000 + 1 / 64)" by (subst real_sqrt_less_iff) simp
  then show "1000 < sqrt (1000000 + 1 / 64)" unfolding real_sqrt_abs2 by simp
  have "(1000000 + 1 / 64 :: real) < (1000 + 1 / 32768)\<^sup>2" by (simp add: power2_eq_square)
  then show "sqrt (1000000 + 1 / 64) < 1000 + 1 / 32768"
    by (intro real_less_lsqrt) simp_all
qed

lemma near_distance: "float32_Distance origin (near_world a) = Some 1000"
  using sqrt_near_1000 to_float32_about_1000 [of "sqrt (1000000 + 1 / 64)"]
    to_float32_about_1000 [of 1000]
  by (simp add: float32_Distance_def near_exact_distance)

lemma S5_run:
  "FindClosestActor float32_Distance S5_world origin [None, Some 1, Some 2, None, Some 3] =
     Inr (True, \<lparr>OutClosestActor = Some 2, OutClosestDistance = 5,
                 located = [Some 1, Some 2, Some 3]\<rparr>)"
  by (simp add: FindClosestActor_def FindClosestActor_loop_None FindClosestActor_loop_Some S5_distance
        MAX_FLT_def del: FindClosestActor_loop.simps(2))

text \<open>
  Claim C2, amended. The source compares the distances as it computes them, narrowed to
  \<^verbatim>\<open>float\<close>; the running best starts at \<open>MAX_FLT\<close> and is replaced only by a strictly smaller
  one. If the array has a non-null entry whose computed distance is a float less than
  \<open>MAX_FLT\<close>, then \<open>FindClosestActor\<close> returns true, \<open>OutClosestDistance\<close> is the minimum of the
  computed distances of the non-null entries (the finite ones: an infinite one is above
  them all), and \<open>OutClosestActor\<close> is a non-null entry whose computed distance is that
  minimum. This holds for every way \<open>Dist\<close> of computing and rounding the distance.
\<close>

theorem FindClosestActor_minimal:
  assumes "Some a \<in> set arr" and "Dist s (world a) = Some d" and "d < MAX_FLT"
  shows "\<exists>st b. FindClosestActor Dist world s arr = Inr (True, st) \<and>
           OutClosestActor st = Some b \<and> Some b \<in> set arr \<and>
           Dist s (world b) = Some (OutClosestDistance st) \<and>
           OutClosestDistance st = Min {e. \<exists>c. Some c \<in> set arr \<and> Dist s (world c) = Some e}"
proof -
  let ?st0 = "\<lparr>OutClosestActor = None, OutClosestDistance = MAX_FLT, located = []\<rparr> :: 'a finder"
  let ?D = "{e. \<exists>c. Some c \<in> set arr \<and> Dist s (world c) = Some e}"
  from FindClosestActor_run [of Dist world s arr] obtain st where
    r: "FindClosestActor Dist world s arr = Inr (OutClosestActor st \<noteq> None, st)"
    and l: "FindClosestActor_loop Dist world s arr ?st0 = Inr st" by blast
  from assms have "\<exists>a d. Some a \<in> set arr \<and> Dist s (world a) = Some d \<and>
      d < OutClosestDistance ?st0" by auto
  from FindClosestActor_loop_first_min [OF this l] obtain pre b post m where
    h: "arr = pre @ Some b # post" "OutClosestActor st = Some b"
       "Dist s (world b) = Some m" "OutClosestDistance st = m"
       "\<forall>c e. Some c \<in> set pre \<longrightarrow> Dist s (world c) = Some e \<longrightarrow> m < e"
       "\<forall>c e. Some c \<in> set post \<longrightarrow> Dist s (world c) = Some e \<longrightarrow> m \<le> e"
    by blast
  from h(1) have mem: "Some b \<in> set arr" by simp
  have le: "m \<le> e" if "Some c \<in> set arr" "Dist s (world c) = Some e" for c e
  proof -
    from that(1) h(1) consider "Some c \<in> set pre" | "c = b" | "Some c \<in> set post" by auto
    then show ?thesis
    proof cases
      case 1
      with h(5) that(2) show ?thesis by (simp add: less_imp_le)
    next
      case 2
      with h(3) that(2) show ?thesis by simp
    next
      case 3
      with h(6) that(2) show ?thesis by simp
    qed
  qed
  have "?D \<subseteq> the ` ((\<lambda>c. Dist s (world c)) ` {c. Some c \<in> set arr})" by force
  moreover have "finite {c. Some c \<in> set arr}"
    using finite_vimageI [of "set arr" Some] by (simp add: vimage_def)
  ultimately have fin: "finite ?D" by (meson finite_imageI finite_subset)
  have "Min ?D = m"
  proof (rule Min_eqI)
    show "finite ?D" by (rule fin)
    show "m \<in> ?D" using mem h(3) by blast
    show "\<And>y. y \<in> ?D \<Longrightarrow> m \<le> y" using le by blast
  qed
  with r h(2,3,4) mem show ?thesis by auto
qed

theorem FindClosestActor_minimal_witness:
  "\<exists>st b. FindClosestActor float32_Distance S5_world origin [None, Some 1, Some 2, None, Some 3] =
       Inr (True, st) \<and>
     OutClosestActor st = Some b \<and> Some b \<in> set [None, Some 1, Some 2, None, Some 3] \<and>
     float32_Distance origin (S5_world b) = Some (OutClosestDistance st) \<and>
     OutClosestDistance st =
       Min {e. \<exists>c. Some c \<in> set [None, Some 1, Some 2, None, Some 3] \<and>
                   float32_Distance origin (S5_world c) = Some e}"
proof -
  have 1: "Some 1 \<in> set [None, Some 1, Some 2, None, Some (3::nat)]" by simp
  have 2: "float32_Distance origin (S5_world 1) = Some 10" by (simp add: S5_distance)
  have 3: "(10::real) < MAX_FLT" by (simp add: MAX_FLT_def)
  from FindClosestActor_minimal
    [of 1 "[None, Some 1, Some 2, None, Some 3]" float32_Distance origin S5_world 10] 1 2 3
  show ?thesis by blast
qed

text \<open>
  Where claim C2 fails as it is stated. The only actor stands at distance \<open>MAX_FLT\<close>, which
  is not below the sentinel: false is returned. And the first of two actors stands at
  \<open>(1000, 1/8, 0)\<close>, the second at \<open>(1000, 0, 0)\<close>, strictly nearer to the origin: both
  distances narrow to the float 1000, the second is not strictly less, and the first actor
  is returned, whose position does not realize the minimum distance.
\<close>

theorem FindClosestActor_minimal_counterexample:
  "Some 7 \<in> set [None, Some (7::nat)] \<and>
   FindClosestActor float32_Distance far_world origin [None, Some 7] =
     Inr (False, \<lparr>OutClosestActor = None, OutClosestDistance = MAX_FLT, located = [Some 7]\<rparr>) \<and>
   FindClosestActor float32_Distance near_world origin [Some 1, Some 2] =
     Inr (True, \<lparr>OutClosestActor = Some 1, OutClosestDistance = 1000,
                 located = [Some 1, Some 2]\<rparr>) \<and>
   FVector_Distance origin (near_world 2) < FVector_Distance origin (near_world 1)"
  using sqrt_near_1000(1)
  by (simp add: FindClosestActor_def FindClosestActor_loop_None FindClosestActor_loop_Some
        far_distance near_distance near_exact_distance MAX_FLT_def
        del: FindClosestActor_loop.simps(2))

text \<open>
  Claim C3, amended. If entry \<open>i\<close> of the array is non-null, its computed distance is a float
  less than \<open>MAX_FLT\<close> and is the minimum of the computed distances of the non-null entries,
  and every non-null entry before it has a strictly greater computed distance, then
  \<open>FindClosestActor\<close> returns entry \<open>i\<close>: of the entries tied at the minimum computed distance,
  the first in array order. This holds for every way \<open>Dist\<close> of computing and rounding the
  distance.
\<close>

theorem FindClosestActor_first_of_ties:
  assumes "i < length arr" and "arr ! i = Some a"
    and "Dist s (world a) = Some d" and "d < MAX_FLT"
    and "\<forall>c e. Some c \<in> set arr \<longrightarrow> Dist s (world c) = Some e \<longrightarrow> d \<le> e"
    and "\<forall>j<i. \<forall>c e. arr ! j = Some c \<longrightarrow> Dist s (world c) = Some e \<longrightarrow> d < e"
  shows "\<exists>st. FindClosestActor Dist world s arr = Inr (True, st) \<and> OutClosestActor st = arr ! i \<and>
           OutClosestDistance st = d"
proof -
  let ?st0 = "\<lparr>OutClosestActor = None, OutClosestDistance = MAX_FLT, located = []\<rparr> :: 'a finder"
  from FindClosestActor_run [of Dist world s arr] obtain st where
    r: "FindClosestActor Dist world s arr = Inr (OutClosestActor st \<noteq> None, st)"
    and l: "FindClosestActor_loop Dist world s arr ?st0 = Inr st" by blast
  from assms(1,2) have amem: "Some a \<in> set arr" by (metis nth_mem)
  with assms(3,4) have "\<exists>a d. Some a \<in> set arr \<and> Dist s (world a) = Some d \<and>
      d < OutClosestDistance ?st0" by auto
  from FindClosestActor_loop_first_min [OF this l] obtain pre b post m where
    h: "arr = pre @ Some b # post" "OutClosestActor st = Some b"
       "Dist s (world b) = Some m" "OutClosestDistance st = m"
       "\<forall>c e. Some c \<in> set pre \<longrightarrow> Dist s (world c) = Some e \<longrightarrow> m < e"
       "\<forall>c e. Some c \<in> set post \<longrightarrow> Dist s (world c) = Some e \<longrightarrow> m \<le> e"
    by blast
  from h(1) have bmem: "Some b \<in> set arr" by simp
  with assms(5) h(3) have dm: "d \<le> m" by blast
  have "\<not> i < length pre"
  proof
    assume "i < length pre"
    with h(1) assms(2) have "Some a \<in> set pre" by (metis nth_append nth_mem)
    with h(5) assms(3) have "m < d" by blast
    with dm show False by simp
  qed
  moreover have "\<not> length pre < i"
  proof
    assume "length pre < i"
    moreover have "arr ! length pre = Some b" using h(1) by simp
    ultimately have "d < m" using assms(6) h(3) by blast
    moreover have "m \<le> d"
    proof -
      from amem h(1) consider "Some a \<in> set pre" | "a = b" | "Some a \<in> set post" by auto
      then show ?thesis
      proof cases
        case 1
        with h(5) assms(3) show ?thesis by (simp add: less_imp_le)
      next
        case 2
        with h(3) assms(3) show ?thesis by simp
      next
        case 3
        with h(6) assms(3) show ?thesis by simp
      qed
    qed
    ultimately show False by simp
  qed
  ultimately have "i = length pre" by simp
  with h(1) assms(2) have "b = a" by simp
  with h(3) assms(3) have "m = d" by simp
  with r h(2,4) assms(2) \<open>b = a\<close> show ?thesis by auto
qed

theorem FindClosestActor_first_of_ties_witness:
  "\<exists>st. FindClosestActor float32_Distance S5_world origin [None, Some 1, Some 2, None, Some 3] =
       Inr (True, st) \<and>
     OutClosestActor st = Some 2 \<and> OutClosestDistance st = 5 \<and>
     float32_Distance origin (S5_world 3) = float32_Distance origin (S5_world 2)"
proof -
  let ?arr = "[None, Some 1, Some 2, None, Some (3::nat)]"
  have 1: "2 < length ?arr" by simp
  have 2: "?arr ! 2 = Some 2" by simp
  have 3: "float32_Distance origin (S5_world 2) = Some 5" by (simp add: S5_distance)
  have 4: "(5::real) < MAX_FLT" by (simp add: MAX_FLT_def)
  have 5: "\<forall>c e. Some c \<in> set ?arr \<longrightarrow> float32_Distance origin (S5_world c) = Some e \<longrightarrow> 5 \<le> e"
    by (auto simp: S5_distance)
  have 6: "\<forall>j<2. \<forall>c e. ?arr ! j = Some c \<longrightarrow> float32_Distance origin (S5_world c) = Some e \<longrightarrow> 5 < e"
    by (auto simp: S5_distance less_Suc_eq numeral_2_eq_2)
  from FindClosestActor_first_of_ties [of 2 ?arr 2 float32_Distance origin S5_world 5] 1 2 3 4 5 6
  show ?thesis by (simp add: S5_distance)
qed

text \<open>
  Where claim C3 fails as it is stated. Two actors tied at distance \<open>MAX_FLT\<close>: null is
  returned, not the first of them. And of three actors, the second and the third stand at
  \<open>(1000, 0, 0)\<close>, tied at the minimum distance 1000, the first at \<open>(1000, 1/8, 0)\<close>, strictly
  farther: its distance narrows to the float 1000 too, and it is the one returned, not the
  second actor.
\<close>

theorem FindClosestActor_first_of_ties_counterexample:
  "FindClosestActor float32_Distance far_world origin [Some 1, Some 2] =
     Inr (False, \<lparr>OutClosestActor = None, OutClosestDistance = MAX_FLT,
                  located = [Some 1, Some 2]\<rparr>) \<and>
   FVector_Distance origin (far_world 1) = FVector_Distance origin (far_world 2) \<and>
   FindClosestActor float32_Distance near_world origin [Some 1, Some 2, Some 3] =
     Inr (True, \<lparr>OutClosestActor = Some 1, OutClosestDistance = 1000,
                 located = [Some 1, Some 2, Some 3]\<rparr>) \<and>
   FVector_Distance origin (near_world 2) = FVector_Distance origin (near_world 3) \<and>
   FVector_Distance origin (near_world 2) < FVector_Distance origin (near_world 1)"
proof -
  have "FVector_Distance origin (far_world 1) = FVector_Distance origin (far_world 2)"
    by (simp add: far_world_def)
  with sqrt_near_1000(1) show ?thesis
    by (simp add: FindClosestActor_def FindClosestActor_loop_None FindClosestActor_loop_Some
        far_distance near_distance near_exact_distance MAX_FLT_def
        del: FindClosestActor_loop.simps(2))
qed

text \<open>
  Claim C4. If the actor array is empty or every entry is null, \<open>FindClosestActor\<close> returns
  false with \<open>OutClosestActor\<close> null and \<open>OutClosestDistance\<close> equal to \<open>MAX_FLT\<close>, and what
  it returns on an all-null array is what it returns on the empty array.
\<close>

theorem FindClosestActor_empty_or_all_null:
  assumes "arr = [] \<or> (\<forall>p\<in>set arr. p = None)"
  shows "FindClosestActor Dist world s arr =
           Inr (False, \<lparr>OutClosestActor = None, OutClosestDistance = MAX_FLT, located = []\<rparr>) \<and>
         FindClosestActor Dist world s arr = FindClosestActor Dist world s []"
proof -
  let ?st0 = "\<lparr>OutClosestActor = None, OutClosestDistance = MAX_FLT, located = []\<rparr> :: 'a finder"
  from assms have nulls: "\<forall>p\<in>set arr. p = None" by auto
  from FindClosestActor_run [of Dist world s arr] obtain st where
    r: "FindClosestActor Dist world s arr = Inr (OutClosestActor st \<noteq> None, st)"
    and l: "FindClosestActor_loop Dist world s arr ?st0 = Inr st" by blast
  from nulls have "\<forall>a d. Some a \<in> set arr \<longrightarrow> Dist s (world a) = Some d \<longrightarrow>
      \<not> d < OutClosestDistance ?st0"
    by auto
  from FindClosestActor_loop_keep [OF this l]
  have k: "OutClosestActor st = None" "OutClosestDistance st = MAX_FLT" by simp_all
  from nulls have "filter (\<lambda>p. p \<noteq> None) arr = []" by (induction arr) auto
  with FindClosestActor_loop_total [of Dist world s arr ?st0] l
  have "located st = []" by simp
  with k have "st = ?st0" by simp
  with r have "FindClosestActor Dist world s arr = Inr (False, ?st0)" by simp
  moreover have "FindClosestActor Dist world s [] = Inr (False, ?st0)"
    by (simp add: FindClosestActor_def)
  ultimately show ?thesis by simp
qed

theorem FindClosestActor_empty_or_all_null_witness:
  "FindClosestActor float32_Distance (\<lambda>a::nat. \<lparr>FVector.X = 1, Y = 2, Z = 3\<rparr>)
     \<lparr>FVector.X = 0, Y = 0, Z = 0\<rparr> [None, None, None] =
     Inr (False, \<lparr>OutClosestActor = None, OutClosestDistance = MAX_FLT, located = []\<rparr>) \<and>
   FindClosestActor float32_Distance (\<lambda>a::nat. \<lparr>FVector.X = 1, Y = 2, Z = 3\<rparr>)
     \<lparr>FVector.X = 0, Y = 0, Z = 0\<rparr> [None, None, None] =
   FindClosestActor float32_Distance (\<lambda>a::nat. \<lparr>FVector.X = 1, Y = 2, Z = 3\<rparr>)
     \<lparr>FVector.X = 0, Y = 0, Z = 0\<rparr> []"
  using FindClosestActor_empty_or_all_null
    [of "[None, None, None]" float32_Distance "\<lambda>a::nat. \<lparr>FVector.X = 1, Y = 2, Z = 3\<rparr>"
        "\<lparr>FVector.X = 0, Y = 0, Z = 0\<rparr>"]
  by (simp add: FindClosestActor_def)

text \<open>
  Claim C10. For every source location and every actor array, \<open>FindClosestActor\<close> calls
  \<^verbatim>\<open>GetActorLocation\<close> only on non-null entries: it returns without a fault (it is total over
  arrays that contain null entries), and the pointers it located are the non-null entries
  of the array, each once, in array order.
\<close>

theorem FindClosestActor_locates_non_null_only:
  "\<exists>found st. FindClosestActor Dist world s arr = Inr (found, st) \<and>
      located st = filter (\<lambda>p. p \<noteq> None) arr \<and> None \<notin> set (located st)"
proof -
  let ?st0 = "\<lparr>OutClosestActor = None, OutClosestDistance = MAX_FLT, located = []\<rparr> :: 'a finder"
  from FindClosestActor_run [of Dist world s arr] obtain st where
    r: "FindClosestActor Dist world s arr = Inr (OutClosestActor st \<noteq> None, st)"
    and l: "FindClosestActor_loop Dist world s arr ?st0 = Inr st" by blast
  from FindClosestActor_loop_total [of Dist world s arr ?st0] l
  have "located st = filter (\<lambda>p. p \<noteq> None) arr" by simp
  with r show ?thesis by auto
qed

section \<open>Properties of CalculateJumpVelocity\<close>

lemma SMALL_NUMBER_pos: "0 < SMALL_NUMBER"
  by (simp add: SMALL_NUMBER_def)

lemma FVector_Normalize_large:
  assumes "FVector_SizeSquared V > SMALL_NUMBER"
  shows "FVector_Normalize V = Some (FVector_scale V (1 / sqrt (FVector_SizeSquared V)))"
proof -
  from assms SMALL_NUMBER_pos have "0 < FVector_SizeSquared V" by linarith
  with assms show ?thesis
    by (simp add: FVector_Normalize_def FMath_InvSqrt_def Let_def)
qed

lemma FVector_Normalize_small:
  assumes "\<not> FVector_SizeSquared V > SMALL_NUMBER"
  shows "FVector_Normalize V = Some V"
  using assms by (simp add: FVector_Normalize_def Let_def)

lemma CalculateJumpVelocity_normalized:
  assumes "JumpTime \<noteq> 0" and "XYSquareSum StartPos TargetPos > SMALL_NUMBER"
  shows "CalculateJumpVelocity StartPos TargetPos GravityZ JumpTime =
     Some \<lparr>FVector.X = (FVector.X TargetPos - FVector.X StartPos) / JumpTime,
           FVector.Y = (FVector.Y TargetPos - FVector.Y StartPos) / JumpTime,
           FVector.Z = (FVector.Z TargetPos - FVector.Z StartPos
                        - 0.5 * GravityZ * JumpTime * JumpTime) / JumpTime\<rparr>"
proof -
  let ?D = "(FVector_minus TargetPos StartPos)\<lparr>FVector.Z := 0\<rparr>"
  have sq: "FVector_SizeSquared ?D = XYSquareSum StartPos TargetPos"
    by (simp add: FVector_SizeSquared_def FVector_minus_def XYSquareSum_def)
  from assms(2) SMALL_NUMBER_pos have pos: "0 < XYSquareSum StartPos TargetPos" by linarith
  then have rt: "sqrt (XYSquareSum StartPos TargetPos) \<noteq> 0" by simp
  from assms(2) sq have n: "FVector_Normalize ?D =
      Some (FVector_scale ?D (1 / sqrt (XYSquareSum StartPos TargetPos)))"
    using FVector_Normalize_large [of ?D] by simp
  have "CalculateJumpVelocity StartPos TargetPos GravityZ JumpTime =
      Some \<lparr>FVector.X = FVector.X ?D * (1 / sqrt (XYSquareSum StartPos TargetPos)) *
                         (sqrt (XYSquareSum StartPos TargetPos) / JumpTime),
            FVector.Y = FVector.Y ?D * (1 / sqrt (XYSquareSum StartPos TargetPos)) *
                         (sqrt (XYSquareSum StartPos TargetPos) / JumpTime),
            FVector.Z = (FVector.Z (FVector_minus TargetPos StartPos)
                         - 0.5 * GravityZ * JumpTime * JumpTime) / JumpTime\<rparr>"
    using assms(1)
    by (simp add: CalculateJumpVelocity_def Let_def n fdiv_def FVector_Size_def sq
        FVector_scale_def)
  then show ?thesis
    using rt by (simp add: FVector_minus_def)
qed

lemma CalculateJumpVelocity_unnormalized:
  assumes "JumpTime \<noteq> 0" and "\<not> XYSquareSum StartPos TargetPos > SMALL_NUMBER"
  shows "CalculateJumpVelocity StartPos TargetPos GravityZ JumpTime =
     Some \<lparr>FVector.X = (FVector.X TargetPos - FVector.X StartPos) *
                        (sqrt (XYSquareSum StartPos TargetPos) / JumpTime),
           FVector.Y = (FVector.Y TargetPos - FVector.Y StartPos) *
                        (sqrt (XYSquareSum StartPos TargetPos) / JumpTime),
           FVector.Z = (FVector.Z TargetPos - FVector.Z StartPos
                        - 0.5 * GravityZ * JumpTime * JumpTime) / JumpTime\<rparr>"
proof -
  let ?D = "(FVector_minus TargetPos StartPos)\<lparr>FVector.Z := 0\<rparr>"
  have sq: "FVector_SizeSquared ?D = XYSquareSum StartPos TargetPos"
    by (simp add: FVector_SizeSquared_def FVector_minus_def XYSquareSum_def)
  from assms(2) sq have n: "FVector_Normalize ?D = Some ?D"
    using FVector_Normalize_small [of ?D] by simp
  have "CalculateJumpVelocity StartPos TargetPos GravityZ JumpTime =
      Some \<lparr>FVector.X = FVector.X ?D * (sqrt (XYSquareSum StartPos TargetPos) / JumpTime),
            FVector.Y = FVector.Y ?D * (sqrt (XYSquareSum StartPos TargetPos) / JumpTime),
            FVector.Z = (FVector.Z (FVector_minus TargetPos StartPos)
                         - 0.5 * GravityZ * JumpTime * JumpTime) / JumpTime\<rparr>"
    using assms(1)
    by (simp add: CalculateJumpVelocity_def Let_def n fdiv_def FVector_Size_def sq
        FVector_scale_def)
  then show ?thesis
    by (simp add: FVector_minus_def)
qed

lemma XYSquareSum_zero_iff:
  "XYSquareSum StartPos TargetPos = 0 \<longleftrightarrow>
     FVector.X StartPos = FVector.X TargetPos \<and> FVector.Y StartPos = FVector.Y TargetPos"
  by (auto simp: XYSquareSum_def)


lemma CalculateJumpVelocity_ballistic:
  assumes "JumpTime \<noteq> 0"
    and "XYSquareSum StartPos TargetPos > SMALL_NUMBER \<or> XYSquareSum StartPos TargetPos = 0"
  shows "\<exists>v0. CalculateJumpVelocity StartPos TargetPos GravityZ JumpTime = Some v0 \<and>
           ballistic_position StartPos v0 GravityZ JumpTime = TargetPos"
proof (cases "XYSquareSum StartPos TargetPos > SMALL_NUMBER")
  case True
  from CalculateJumpVelocity_normalized [OF assms(1) True, of GravityZ] assms(1)
  show ?thesis by (simp add: ballistic_position_def)
next
  case False
  with assms(2) have z: "XYSquareSum StartPos TargetPos = 0" by simp
  then have "FVector.X StartPos = FVector.X TargetPos" "FVector.Y StartPos = FVector.Y TargetPos"
    by (simp_all add: XYSquareSum_zero_iff)
  with CalculateJumpVelocity_unnormalized [OF assms(1) False, of GravityZ] assms(1) z
  show ?thesis by (simp add: ballistic_position_def)
qed

text \<open>
  The result is finite exactly when \<^verbatim>\<open>JumpTime\<close> is not zero. The third scenario of the
  specification: from the origin to \<open>(100, 0, 100)\<close> under gravity \<open>-1000\<close> in time 1.
\<close>

lemma CalculateJumpVelocity_zero_time:
  "CalculateJumpVelocity StartPos TargetPos GravityZ 0 = None"
proof -
  have "\<exists>D. FVector_Normalize V = Some D" for V
    by (cases "FVector_SizeSquared V > SMALL_NUMBER")
       (simp_all add: FVector_Normalize_large FVector_Normalize_small)
  then obtain D where
    "FVector_Normalize ((FVector_minus TargetPos StartPos)\<lparr>FVector.Z := 0\<rparr>) = Some D"
    by blast
  then show ?thesis by (simp add: CalculateJumpVelocity_def Let_def fdiv_def)
qed

lemma CalculateJumpVelocity_finite:
  assumes "JumpTime \<noteq> 0"
  shows "\<exists>v. CalculateJumpVelocity StartPos TargetPos GravityZ JumpTime = Some v"
  using CalculateJumpVelocity_normalized [OF assms, of StartPos TargetPos GravityZ]
    CalculateJumpVelocity_unnormalized [OF assms, of StartPos TargetPos GravityZ]
  by (cases "XYSquareSum StartPos TargetPos > SMALL_NUMBER") simp_all

lemma CalculateJumpVelocity_S3:
  "CalculateJumpVelocity origin \<lparr>FVector.X = 100, Y = 0, Z = 100\<rparr> (- 1000) 1 =
     Some \<lparr>FVector.X = 100, Y = 0, Z = 600\<rparr>"
proof -
  have t: "(1::real) \<noteq> 0" by simp
  have "XYSquareSum origin \<lparr>FVector.X = 100, Y = 0, Z = 100\<rparr> > SMALL_NUMBER"
    by (simp add: XYSquareSum_def origin_def SMALL_NUMBER_def)
  from CalculateJumpVelocity_normalized [OF t this, of "- 1000"] show ?thesis
    by (simp add: origin_def)
qed

lemma XYSquareSum_along_X:
  "XYSquareSum \<lparr>FVector.X = 0, Y = 0, Z = a\<rparr> \<lparr>FVector.X = x, Y = 0, Z = b\<rparr> = x * x"
  by (simp add: XYSquareSum_def)

text \<open>
  Claim C1 fails on the code for a horizontal offset that is not zero and whose squared
  length is at most \<open>SMALL_NUMBER\<close>: \<^verbatim>\<open>Direction.Normalize()\<close> then leaves \<^verbatim>\<open>Direction\<close> as it
  is, and the source multiplies the offset itself, not its direction, by
  \<^verbatim>\<open>XYDistance / JumpTime\<close>. From the origin to \<open>(1/16384, 0, 0)\<close> in time 1 without
  gravity the returned velocity is \<open>(1/268435456, 0, 0)\<close>, and the projectile is not at the
  target at time 1. (Lemma \<open>CalculateJumpVelocity_ballistic\<close> is the claim for every other offset.)
\<close>

theorem CalculateJumpVelocity_short_offset:
  "CalculateJumpVelocity \<lparr>FVector.X = 0, Y = 0, Z = 0\<rparr> \<lparr>FVector.X = 1 / 16384, Y = 0, Z = 0\<rparr> 0 1 =
     Some \<lparr>FVector.X = 1 / 268435456, Y = 0, Z = 0\<rparr> \<and>
   ballistic_position \<lparr>FVector.X = 0, Y = 0, Z = 0\<rparr> \<lparr>FVector.X = 1 / 268435456, Y = 0, Z = 0\<rparr> 0 1
     \<noteq> \<lparr>FVector.X = 1 / 16384, Y = 0, Z = 0\<rparr>"
proof -
  let ?S = "\<lparr>FVector.X = 0, Y = 0, Z = 0\<rparr>" and ?T = "\<lparr>FVector.X = 1 / 16384, Y = 0, Z = 0\<rparr>"
  have sq: "XYSquareSum ?S ?T = (1 / 16384) * (1 / 16384)" by (rule XYSquareSum_along_X)
  have rt: "sqrt (XYSquareSum ?S ?T) = 1 / 16384" unfolding sq real_sqrt_abs2 by simp
  have small: "\<not> XYSquareSum ?S ?T > SMALL_NUMBER" by (simp add: sq SMALL_NUMBER_def)
  have t: "(1::real) \<noteq> 0" by simp
  from CalculateJumpVelocity_unnormalized [OF t small, of 0]
  show ?thesis by (simp add: rt ballistic_position_def)
qed

text \<open>
  Claim C8 fails on the code where scaling takes the horizontal offset across the tolerance
  of \<^verbatim>\<open>Normalize\<close>: the offset \<open>(1, 0)\<close> gives the horizontal velocity \<open>(1, 0)\<close>, and the
  offset scaled by \<open>k = 1/32768\<close> gives \<open>(1/1073741824, 0)\<close>, which is not \<open>k\<close> times
  \<open>(1, 0)\<close>.
\<close>

theorem CalculateJumpVelocity_scaled_offset:
  "CalculateJumpVelocity \<lparr>FVector.X = 0, Y = 0, Z = 0\<rparr> \<lparr>FVector.X = 1, Y = 0, Z = 0\<rparr> 0 1 =
     Some \<lparr>FVector.X = 1, Y = 0, Z = 0\<rparr> \<and>
   CalculateJumpVelocity \<lparr>FVector.X = 0, Y = 0, Z = 0\<rparr> \<lparr>FVector.X = 1 / 32768 * 1, Y = 1 / 32768 * 0, Z = 0\<rparr> 0 1 =
     Some \<lparr>FVector.X = 1 / 1073741824, Y = 0, Z = 0\<rparr> \<and>
   (1 / 1073741824 :: real) \<noteq> 1 / 32768 * 1"
proof -
  let ?S = "\<lparr>FVector.X = 0, Y = 0, Z = 0\<rparr>" and ?T = "\<lparr>FVector.X = 1, Y = 0, Z = 0\<rparr>"
    and ?T' = "\<lparr>FVector.X = 1 / 32768, Y = 0, Z = 0\<rparr>"
  have t: "(1::real) \<noteq> 0" by simp
  have sq: "XYSquareSum ?S ?T = 1 * 1" by (rule XYSquareSum_along_X)
  then have large: "XYSquareSum ?S ?T > SMALL_NUMBER" by (simp add: SMALL_NUMBER_def)
  have sq': "XYSquareSum ?S ?T' = (1 / 32768) * (1 / 32768)" by (rule XYSquareSum_along_X)
  have rt': "sqrt (XYSquareSum ?S ?T') = 1 / 32768" unfolding sq' real_sqrt_abs2 by simp
  have small: "\<not> XYSquareSum ?S ?T' > SMALL_NUMBER" by (simp add: sq' SMALL_NUMBER_def)
  from CalculateJumpVelocity_normalized [OF t large, of 0]
    CalculateJumpVelocity_unnormalized [OF t small, of 0]
  show ?thesis by (simp add: rt')
qed

text \<open>
  Claim C5. For every gravity and every jump time \<open>T > 0\<close>, if \<open>StartPos\<close> and \<open>TargetPos\<close> have
  the same X and the same Y, then the X and Y components of the result are exactly zero
  and the result is finite: \<^verbatim>\<open>Normalize\<close> returns the zero direction as it is, without
  taking the reciprocal square root of zero, and no division by zero takes place.
\<close>

theorem CalculateJumpVelocity_zero_horizontal:
  assumes "0 < JumpTime"
    and "FVector.X StartPos = FVector.X TargetPos" and "FVector.Y StartPos = FVector.Y TargetPos"
  shows "FVector_Normalize ((FVector_minus TargetPos StartPos)\<lparr>FVector.Z := 0\<rparr>) =
           Some \<lparr>FVector.X = 0, Y = 0, Z = 0\<rparr> \<and>
         CalculateJumpVelocity StartPos TargetPos GravityZ JumpTime =
           Some \<lparr>FVector.X = 0, Y = 0,
                 Z = (FVector.Z TargetPos - FVector.Z StartPos
                      - 0.5 * GravityZ * JumpTime * JumpTime) / JumpTime\<rparr>"
proof -
  from assms(2,3) have z: "XYSquareSum StartPos TargetPos = 0"
    by (simp add: XYSquareSum_zero_iff)
  with SMALL_NUMBER_pos have small: "\<not> XYSquareSum StartPos TargetPos > SMALL_NUMBER" by simp
  from assms(1) have t: "JumpTime \<noteq> 0" by simp
  have "FVector_Normalize ((FVector_minus TargetPos StartPos)\<lparr>FVector.Z := 0\<rparr>) =
          Some ((FVector_minus TargetPos StartPos)\<lparr>FVector.Z := 0\<rparr>)"
    using SMALL_NUMBER_pos assms(2,3)
    by (intro FVector_Normalize_small) (simp add: FVector_SizeSquared_def FVector_minus_def)
  moreover have "(FVector_minus TargetPos StartPos)\<lparr>FVector.Z := 0\<rparr> = \<lparr>FVector.X = 0, Y = 0, Z = 0\<rparr>"
    using assms(2,3) by (simp add: FVector_minus_def)
  ultimately show ?thesis
    using CalculateJumpVelocity_unnormalized [OF t small, of GravityZ] assms(2,3) z by simp
qed

theorem CalculateJumpVelocity_zero_horizontal_witness:
  "FVector_Normalize ((FVector_minus \<lparr>FVector.X = 0, Y = 0, Z = 0\<rparr> \<lparr>FVector.X = 0, Y = 0, Z = 0\<rparr>)\<lparr>FVector.Z := 0\<rparr>) =
     Some \<lparr>FVector.X = 0, Y = 0, Z = 0\<rparr> \<and>
   CalculateJumpVelocity \<lparr>FVector.X = 0, Y = 0, Z = 0\<rparr> \<lparr>FVector.X = 0, Y = 0, Z = 0\<rparr> (- 980) 2 =
     Some \<lparr>FVector.X = 0, Y = 0, Z = 980\<rparr>"
  using CalculateJumpVelocity_zero_horizontal
    [of 2 "\<lparr>FVector.X = 0, Y = 0, Z = 0\<rparr>" "\<lparr>FVector.X = 0, Y = 0, Z = 0\<rparr>" "- 980"]
  by simp

text \<open>
  Claim C9. For every jump time \<open>T > 0\<close>, two calls that agree on the X and Y coordinates of
  start and target (and on \<open>T\<close>) return the same X and Y components, whatever the gravity
  and the Z coordinates are; and two calls that agree on the Z coordinates of start and
  target, on the gravity and on \<open>T\<close> return the same Z component, whatever the X and Y
  coordinates are.
\<close>

theorem CalculateJumpVelocity_separates_axes:
  assumes "0 < JumpTime"
  shows "(FVector.X StartPos = FVector.X StartPos' \<and> FVector.Y StartPos = FVector.Y StartPos' \<and>
          FVector.X TargetPos = FVector.X TargetPos' \<and> FVector.Y TargetPos = FVector.Y TargetPos' \<longrightarrow>
          (\<exists>v v'. CalculateJumpVelocity StartPos TargetPos GravityZ JumpTime = Some v \<and>
                  CalculateJumpVelocity StartPos' TargetPos' GravityZ' JumpTime = Some v' \<and>
                  FVector.X v = FVector.X v' \<and> FVector.Y v = FVector.Y v')) \<and>
         (FVector.Z StartPos = FVector.Z StartPos' \<and> FVector.Z TargetPos = FVector.Z TargetPos' \<longrightarrow>
          (\<exists>v v'. CalculateJumpVelocity StartPos TargetPos GravityZ JumpTime = Some v \<and>
                  CalculateJumpVelocity StartPos' TargetPos' GravityZ JumpTime = Some v' \<and>
                  FVector.Z v = FVector.Z v'))"
proof -
  from assms have t: "JumpTime \<noteq> 0" by simp
  have val: "\<exists>v. CalculateJumpVelocity S T g JumpTime = Some v \<and>
        FVector.X v = (if XYSquareSum S T > SMALL_NUMBER then (FVector.X T - FVector.X S) / JumpTime
                       else (FVector.X T - FVector.X S) * (sqrt (XYSquareSum S T) / JumpTime)) \<and>
        FVector.Y v = (if XYSquareSum S T > SMALL_NUMBER then (FVector.Y T - FVector.Y S) / JumpTime
                       else (FVector.Y T - FVector.Y S) * (sqrt (XYSquareSum S T) / JumpTime)) \<and>
        FVector.Z v = (FVector.Z T - FVector.Z S - 0.5 * g * JumpTime * JumpTime) / JumpTime"
    for S T g
    using CalculateJumpVelocity_normalized [OF t, of S T g]
      CalculateJumpVelocity_unnormalized [OF t, of S T g]
    by (cases "XYSquareSum S T > SMALL_NUMBER") simp_all
  have xy: "XYSquareSum StartPos TargetPos = XYSquareSum StartPos' TargetPos'"
    if "FVector.X StartPos = FVector.X StartPos'" "FVector.Y StartPos = FVector.Y StartPos'"
       "FVector.X TargetPos = FVector.X TargetPos'" "FVector.Y TargetPos = FVector.Y TargetPos'"
    using that by (simp add: XYSquareSum_def)
  from val [of StartPos TargetPos GravityZ] obtain v where
    v: "CalculateJumpVelocity StartPos TargetPos GravityZ JumpTime = Some v"
       "FVector.X v = (if XYSquareSum StartPos TargetPos > SMALL_NUMBER
                        then (FVector.X TargetPos - FVector.X StartPos) / JumpTime
                        else (FVector.X TargetPos - FVector.X StartPos) *
                             (sqrt (XYSquareSum StartPos TargetPos) / JumpTime))"
       "FVector.Y v = (if XYSquareSum StartPos TargetPos > SMALL_NUMBER
                        then (FVector.Y TargetPos - FVector.Y StartPos) / JumpTime
                        else (FVector.Y TargetPos - FVector.Y StartPos) *
                             (sqrt (XYSquareSum StartPos TargetPos) / JumpTime))"
       "FVector.Z v = (FVector.Z TargetPos - FVector.Z StartPos
                        - 0.5 * GravityZ * JumpTime * JumpTime) / JumpTime"
    by blast
  show ?thesis
  proof (intro conjI impI)
    assume a: "FVector.X StartPos = FVector.X StartPos' \<and> FVector.Y StartPos = FVector.Y StartPos' \<and>
          FVector.X TargetPos = FVector.X TargetPos' \<and> FVector.Y TargetPos = FVector.Y TargetPos'"
    from val [of StartPos' TargetPos' GravityZ'] obtain v' where
      "CalculateJumpVelocity StartPos' TargetPos' GravityZ' JumpTime = Some v'"
      "FVector.X v' = (if XYSquareSum StartPos' TargetPos' > SMALL_NUMBER
                        then (FVector.X TargetPos' - FVector.X StartPos') / JumpTime
                        else (FVector.X TargetPos' - FVector.X StartPos') *
                             (sqrt (XYSquareSum StartPos' TargetPos') / JumpTime))"
      "FVector.Y v' = (if XYSquareSum StartPos' TargetPos' > SMALL_NUMBER
                        then (FVector.Y TargetPos' - FVector.Y StartPos') / JumpTime
                        else (FVector.Y TargetPos' - FVector.Y StartPos') *
                             (sqrt (XYSquareSum StartPos' TargetPos') / JumpTime))"
      by blast
    with v a xy show "\<exists>v v'. CalculateJumpVelocity StartPos TargetPos GravityZ JumpTime = Some v \<and>
                  CalculateJumpVelocity StartPos' TargetPos' GravityZ' JumpTime = Some v' \<and>
                  FVector.X v = FVector.X v' \<and> FVector.Y v = FVector.Y v'"
      by simp
  next
    assume a: "FVector.Z StartPos = FVector.Z StartPos' \<and> FVector.Z TargetPos = FVector.Z TargetPos'"
    from val [of StartPos' TargetPos' GravityZ] obtain v' where
      "CalculateJumpVelocity StartPos' TargetPos' GravityZ JumpTime = Some v'"
      "FVector.Z v' = (FVector.Z TargetPos' - FVector.Z StartPos'
                        - 0.5 * GravityZ * JumpTime * JumpTime) / JumpTime"
      by blast
    with v a show "\<exists>v v'. CalculateJumpVelocity StartPos TargetPos GravityZ JumpTime = Some v \<and>
                  CalculateJumpVelocity StartPos' TargetPos' GravityZ JumpTime = Some v' \<and>
                  FVector.Z v = FVector.Z v'"
      by simp
  qed
qed

theorem CalculateJumpVelocity_separates_axes_witness:
  "(\<exists>v v'. CalculateJumpVelocity \<lparr>FVector.X = 0, Y = 0, Z = 0\<rparr> \<lparr>FVector.X = 100, Y = 0, Z = 100\<rparr> (- 1000) 1 = Some v \<and>
           CalculateJumpVelocity \<lparr>FVector.X = 0, Y = 0, Z = 50\<rparr> \<lparr>FVector.X = 100, Y = 0, Z = 7\<rparr> (- 500) 1 = Some v' \<and>
           FVector.X v = FVector.X v' \<and> FVector.Y v = FVector.Y v') \<and>
   (\<exists>v v'. CalculateJumpVelocity \<lparr>FVector.X = 0, Y = 0, Z = 0\<rparr> \<lparr>FVector.X = 100, Y = 0, Z = 100\<rparr> (- 1000) 1 = Some v \<and>
           CalculateJumpVelocity \<lparr>FVector.X = 3, Y = 4, Z = 0\<rparr> \<lparr>FVector.X = - 20, Y = 9, Z = 100\<rparr> (- 1000) 1 = Some v' \<and>
           FVector.Z v = FVector.Z v')"
proof -
  have t: "(0::real) < 1" by simp
  from CalculateJumpVelocity_separates_axes [OF t,
      of "\<lparr>FVector.X = 0, Y = 0, Z = 0\<rparr>" "\<lparr>FVector.X = 0, Y = 0, Z = 50\<rparr>"
         "\<lparr>FVector.X = 100, Y = 0, Z = 100\<rparr>" "\<lparr>FVector.X = 100, Y = 0, Z = 7\<rparr>" "- 1000" "- 500"]
  have 1: "\<exists>v v'. CalculateJumpVelocity \<lparr>FVector.X = 0, Y = 0, Z = 0\<rparr> \<lparr>FVector.X = 100, Y = 0, Z = 100\<rparr> (- 1000) 1 = Some v \<and>
           CalculateJumpVelocity \<lparr>FVector.X = 0, Y = 0, Z = 50\<rparr> \<lparr>FVector.X = 100, Y = 0, Z = 7\<rparr> (- 500) 1 = Some v' \<and>
           FVector.X v = FVector.X v' \<and> FVector.Y v = FVector.Y v'"
    by simp
  from CalculateJumpVelocity_separates_axes [OF t,
      of "\<lparr>FVector.X = 0, Y = 0, Z = 0\<rparr>" "\<lparr>FVector.X = 3, Y = 4, Z = 0\<rparr>"
         "\<lparr>FVector.X = 100, Y = 0, Z = 100\<rparr>" "\<lparr>FVector.X = - 20, Y = 9, Z = 100\<rparr>" "- 1000" "- 1000"]
  have 2: "\<exists>v v'. CalculateJumpVelocity \<lparr>FVector.X = 0, Y = 0, Z = 0\<rparr> \<lparr>FVector.X = 100, Y = 0, Z = 100\<rparr> (- 1000) 1 = Some v \<and>
           CalculateJumpVelocity \<lparr>FVector.X = 3, Y = 4, Z = 0\<rparr> \<lparr>FVector.X = - 20, Y = 9, Z = 100\<rparr> (- 1000) 1 = Some v' \<and>
           FVector.Z v = FVector.Z v'"
    by simp
  from 1 2 show ?thesis by blast
qed

section \<open>Properties of SmoothRotatorInterp\<close>

lemma FRotator_Quaternion_unit: "FQuat_dot (FRotator_Quaternion R) (FRotator_Quaternion R) = 1"
proof -
  define SP where "SP = sin (FMath_Fmod (Pitch R) 360 * ((pi / 180) / 2))"
  define CP where "CP = cos (FMath_Fmod (Pitch R) 360 * ((pi / 180) / 2))"
  define SY where "SY = sin (FMath_Fmod (Yaw R) 360 * ((pi / 180) / 2))"
  define CY where "CY = cos (FMath_Fmod (Yaw R) 360 * ((pi / 180) / 2))"
  define SR where "SR = sin (FMath_Fmod (Roll R) 360 * ((pi / 180) / 2))"
  define CR where "CR = cos (FMath_Fmod (Roll R) 360 * ((pi / 180) / 2))"
  have p: "SP * SP + CP * CP = 1" and y: "SY * SY + CY * CY = 1" and r: "SR * SR + CR * CR = 1"
    unfolding SP_def CP_def SY_def CY_def SR_def CR_def
    by (simp_all add: power2_eq_square [symmetric])
  have "FQuat_dot (FRotator_Quaternion R) (FRotator_Quaternion R) =
      (CR * SP * SY - SR * CP * CY) * (CR * SP * SY - SR * CP * CY) +
      (- CR * SP * CY - SR * CP * SY) * (- CR * SP * CY - SR * CP * SY) +
      (CR * CP * SY - SR * SP * CY) * (CR * CP * SY - SR * SP * CY) +
      (CR * CP * CY + SR * SP * SY) * (CR * CP * CY + SR * SP * SY)"
    by (simp add: FQuat_dot_def FRotator_Quaternion_def Let_def SP_def CP_def SY_def CY_def SR_def CR_def)
  also have "\<dots> = (SP * SP + CP * CP) * (SY * SY + CY * CY) * (SR * SR + CR * CR)"
    by (simp add: algebra_simps)
  also have "\<dots> = 1" by (simp add: p y r)
  finally show ?thesis .
qed

lemma FQuat_combine_id: "FQuat_combine 1 Q 0 Q' = Q"
  by (simp add: FQuat_combine_def)

lemma FQuat_scale_1: "FQuat_scale Q 1 = Q"
  by (simp add: FQuat_scale_def)

lemma FQuat_GetNormalized_unit:
  assumes "FQuat_dot Q Q = 1"
  shows "FQuat_GetNormalized Q = Some Q"
  using assms
  by (simp add: FQuat_GetNormalized_def Let_def SMALL_NUMBER_def FMath_InvSqrt_def FQuat_scale_1)

lemma FQuat_dot_combine:
  "FQuat_dot (FQuat_combine a q1 b q2) (FQuat_combine a q1 b q2) =
     a * a * FQuat_dot q1 q1 + 2 * a * b * FQuat_dot q1 q2 + b * b * FQuat_dot q2 q2"
  by (simp add: FQuat_dot_def FQuat_combine_def algebra_simps)

lemma FQuat_Slerp_NotNormalized_slerp:
  assumes "\<bar>FQuat_dot q1 q2\<bar> < 0.9999"
  shows "FQuat_Slerp_NotNormalized q1 q2 t =
     Some (FQuat_combine (sin ((1 - t) * arccos \<bar>FQuat_dot q1 q2\<bar>) / sin (arccos \<bar>FQuat_dot q1 q2\<bar>)) q1
            (FQuat_sign q1 q2 * (sin (t * arccos \<bar>FQuat_dot q1 q2\<bar>) / sin (arccos \<bar>FQuat_dot q1 q2\<bar>))) q2)"
proof -
  have c: "FMath_FloatSelect (FQuat_dot q1 q2) (FQuat_dot q1 q2) (- FQuat_dot q1 q2) = \<bar>FQuat_dot q1 q2\<bar>"
    by (simp add: FMath_FloatSelect_def)
  from assms have "- 1 < \<bar>FQuat_dot q1 q2\<bar>" "\<bar>FQuat_dot q1 q2\<bar> < 1" by simp_all
  then have nz: "sin (arccos \<bar>FQuat_dot q1 q2\<bar>) \<noteq> 0" by (rule sin_arccos_nonzero)
  show ?thesis
    unfolding FQuat_Slerp_NotNormalized_def Let_def c
    using assms nz
    by (simp add: fdiv_def FMath_FloatSelect_def FQuat_sign_def)
qed

lemma FQuat_Slerp_NotNormalized_lerp:
  assumes "\<not> \<bar>FQuat_dot q1 q2\<bar> < 0.9999"
  shows "FQuat_Slerp_NotNormalized q1 q2 t =
     Some (FQuat_combine (1 - t) q1 (FQuat_sign q1 q2 * t) q2)"
proof -
  have c: "FMath_FloatSelect (FQuat_dot q1 q2) (FQuat_dot q1 q2) (- FQuat_dot q1 q2) = \<bar>FQuat_dot q1 q2\<bar>"
    by (simp add: FMath_FloatSelect_def)
  show ?thesis
    unfolding FQuat_Slerp_NotNormalized_def Let_def c
    using assms
    by (simp add: FMath_FloatSelect_def FQuat_sign_def)
qed


lemma slerp_weights_unit:
  fixes a b :: real
  shows "sin a * sin a + sin b * sin b + 2 * sin a * sin b * cos (a + b) =
         sin (a + b) * sin (a + b)"
proof -
  have ca: "cos a * cos a = 1 - sin a * sin a"
    using sin_cos_squared_add [of a] by (simp add: power2_eq_square)
  have cb: "cos b * cos b = 1 - sin b * sin b"
    using sin_cos_squared_add [of b] by (simp add: power2_eq_square)
  have "sin (a + b) * sin (a + b) =
      sin a * sin a * (cos b * cos b) + (cos a * cos a) * (sin b * sin b) +
      2 * sin a * sin b * (cos a * cos b)"
    by (simp add: sin_add algebra_simps)
  also have "\<dots> = sin a * sin a + sin b * sin b +
      2 * sin a * sin b * (cos a * cos b - sin a * sin b)"
    unfolding ca cb by (simp add: algebra_simps)
  finally show ?thesis by (simp add: cos_add)
qed

lemma FQuat_sign_dot: "FQuat_sign q1 q2 * FQuat_dot q1 q2 = \<bar>FQuat_dot q1 q2\<bar>"
  by (simp add: FQuat_sign_def)

lemma FQuat_sign_square: "FQuat_sign q1 q2 * FQuat_sign q1 q2 = 1"
  by (simp add: FQuat_sign_def)

lemma FQuat_Slerp_slerp:
  assumes u1: "FQuat_dot q1 q1 = 1" and u2: "FQuat_dot q2 q2 = 1"
    and br: "\<bar>FQuat_dot q1 q2\<bar> < 0.9999"
  shows "FQuat_Slerp q1 q2 t =
     Some (FQuat_combine (sin ((1 - t) * arccos \<bar>FQuat_dot q1 q2\<bar>) / sin (arccos \<bar>FQuat_dot q1 q2\<bar>)) q1
            (FQuat_sign q1 q2 * (sin (t * arccos \<bar>FQuat_dot q1 q2\<bar>) / sin (arccos \<bar>FQuat_dot q1 q2\<bar>))) q2)"
proof -
  define c where "c = \<bar>FQuat_dot q1 q2\<bar>"
  define w where "w = arccos c"
  define s0 where "s0 = sin ((1 - t) * w) / sin w"
  define s1 where "s1 = sin (t * w) / sin w"
  from br have "- 1 < c" "c < 1" by (simp_all add: c_def)
  then have nz: "sin w \<noteq> 0" unfolding w_def by (rule sin_arccos_nonzero)
  from \<open>- 1 < c\<close> \<open>c < 1\<close> have cw: "cos w = c" unfolding w_def by simp
  have sum: "(1 - t) * w + t * w = w" by (simp add: algebra_simps)
  have "FQuat_dot (FQuat_combine s0 q1 (FQuat_sign q1 q2 * s1) q2)
          (FQuat_combine s0 q1 (FQuat_sign q1 q2 * s1) q2) =
        s0 * s0 + 2 * s0 * s1 * (FQuat_sign q1 q2 * FQuat_dot q1 q2) +
        s1 * s1 * (FQuat_sign q1 q2 * FQuat_sign q1 q2)"
    by (simp add: FQuat_dot_combine u1 u2 algebra_simps)
  also have "\<dots> = s0 * s0 + 2 * s0 * s1 * c + s1 * s1"
    by (simp add: FQuat_sign_dot FQuat_sign_square c_def)
  also have "\<dots> = (sin ((1 - t) * w) * sin ((1 - t) * w) + sin (t * w) * sin (t * w) +
        2 * sin ((1 - t) * w) * sin (t * w) * cos ((1 - t) * w + t * w)) / (sin w * sin w)"
    unfolding sum cw s0_def s1_def using nz by (simp add: field_simps)
  also have "\<dots> = sin w * sin w / (sin w * sin w)"
    using slerp_weights_unit [of "(1 - t) * w" "t * w"] by (simp only: sum)
  also have "\<dots> = 1" using nz by simp
  finally have unit: "FQuat_dot (FQuat_combine s0 q1 (FQuat_sign q1 q2 * s1) q2)
          (FQuat_combine s0 q1 (FQuat_sign q1 q2 * s1) q2) = 1" .
  from FQuat_Slerp_NotNormalized_slerp [OF br, of t]
  have "FQuat_Slerp_NotNormalized q1 q2 t = Some (FQuat_combine s0 q1 (FQuat_sign q1 q2 * s1) q2)"
    by (simp add: s0_def s1_def w_def c_def)
  with FQuat_GetNormalized_unit [OF unit]
  show ?thesis by (simp add: FQuat_Slerp_def s0_def s1_def w_def c_def)
qed


lemma FQuat_scale_combine:
  "FQuat_scale (FQuat_combine a q1 b q2) k = FQuat_combine (k * a) q1 (k * b) q2"
  by (simp add: FQuat_scale_def FQuat_combine_def algebra_simps)



lemma lerp_norm_bound:
  fixes t c :: real
  assumes "0 \<le> t" and "t \<le> 1" and "0 \<le> c"
  shows "1 / 2 \<le> (1 - t) * (1 - t) + 2 * (1 - t) * t * c + t * t"
proof -
  have "0 \<le> (1 - 2 * t) * (1 - 2 * t)" by simp
  then have "1 / 2 \<le> (1 - t) * (1 - t) + t * t" by (simp add: algebra_simps)
  moreover from assms have "0 \<le> 2 * (1 - t) * t * c" by simp
  ultimately show ?thesis by linarith
qed

lemma FQuat_Slerp_lerp:
  assumes u1: "FQuat_dot q1 q1 = 1" and u2: "FQuat_dot q2 q2 = 1"
    and br: "\<not> \<bar>FQuat_dot q1 q2\<bar> < 0.9999"
    and t: "0 \<le> t" "t \<le> 1"
  shows "FQuat_Slerp q1 q2 t =
     Some (FQuat_combine
            ((1 - t) / sqrt ((1 - t) * (1 - t) + 2 * (1 - t) * t * \<bar>FQuat_dot q1 q2\<bar> + t * t)) q1
            (FQuat_sign q1 q2 *
              (t / sqrt ((1 - t) * (1 - t) + 2 * (1 - t) * t * \<bar>FQuat_dot q1 q2\<bar> + t * t))) q2)"
proof -
  define c where "c = \<bar>FQuat_dot q1 q2\<bar>"
  define N where "N = (1 - t) * (1 - t) + 2 * (1 - t) * t * c + t * t"
  let ?Q = "FQuat_combine (1 - t) q1 (FQuat_sign q1 q2 * t) q2"
  have "FQuat_dot ?Q ?Q = (1 - t) * (1 - t) + 2 * (1 - t) * t * (FQuat_sign q1 q2 * FQuat_dot q1 q2) +
        t * t * (FQuat_sign q1 q2 * FQuat_sign q1 q2)"
    by (simp add: FQuat_dot_combine u1 u2 algebra_simps)
  then have dot: "FQuat_dot ?Q ?Q = N"
    by (simp add: FQuat_sign_dot FQuat_sign_square c_def N_def)
  have "0 \<le> c" by (simp add: c_def)
  from lerp_norm_bound [OF t this] have N: "1 / 2 \<le> N" by (simp add: N_def)
  then have "SMALL_NUMBER \<le> N" "0 < N" by (simp_all add: SMALL_NUMBER_def)
  then have "FQuat_GetNormalized ?Q = Some (FQuat_scale ?Q (1 / sqrt N))"
    by (simp add: FQuat_GetNormalized_def Let_def dot FMath_InvSqrt_def)
  with FQuat_Slerp_NotNormalized_lerp [OF br, of t]
  show ?thesis
    by (simp add: FQuat_Slerp_def FQuat_scale_combine N_def c_def)
qed

text \<open>The weights of the two quaternions in the result, for a parameter in \<open>[0, 1]\<close>.\<close>

lemma FQuat_Slerp_shape:
  assumes u1: "FQuat_dot q1 q1 = 1" and u2: "FQuat_dot q2 q2 = 1"
    and t: "0 \<le> t" "t \<le> 1"
  shows "\<exists>a b. 0 \<le> a \<and> 0 \<le> b \<and> (t = 1 / 2 \<longrightarrow> a = b) \<and>
           FQuat_Slerp q1 q2 t = Some (FQuat_combine a q1 (FQuat_sign q1 q2 * b) q2) \<and>
           FQuat_dot (FQuat_combine a q1 (FQuat_sign q1 q2 * b) q2)
                     (FQuat_combine a q1 (FQuat_sign q1 q2 * b) q2) = 1"
proof (cases "\<bar>FQuat_dot q1 q2\<bar> < 0.9999")
  case True
  define w where "w = arccos \<bar>FQuat_dot q1 q2\<bar>"
  from True have "0 \<le> \<bar>FQuat_dot q1 q2\<bar>" "\<bar>FQuat_dot q1 q2\<bar> \<le> 1" "- 1 < \<bar>FQuat_dot q1 q2\<bar>"
    "\<bar>FQuat_dot q1 q2\<bar> < 1" by simp_all
  then have w: "0 < w" "w \<le> pi / 2"
    using arccos_lt_bounded [of "\<bar>FQuat_dot q1 q2\<bar>"] arccos_le_pi2 [of "\<bar>FQuat_dot q1 q2\<bar>"]
    by (simp_all add: w_def)
  then have sw: "0 < sin w" using pi_gt_zero by (intro sin_gt_zero) linarith+
  have "0 \<le> (1 - t) * w" "(1 - t) * w \<le> pi" "0 \<le> t * w" "t * w \<le> pi"
    using t w pi_gt_zero
    by (simp_all add: mult_le_one mult_left_le_one_le order_trans [of _ w pi])
  then have "0 \<le> sin ((1 - t) * w)" "0 \<le> sin (t * w)" by (simp_all add: sin_ge_zero)
  with sw have nn: "0 \<le> sin ((1 - t) * w) / sin w" "0 \<le> sin (t * w) / sin w" by simp_all
  have half: "t = 1 / 2 \<longrightarrow> sin ((1 - t) * w) / sin w = sin (t * w) / sin w"
  proof
    assume "t = 1 / 2"
    then have e: "1 - t = t" by simp
    show "sin ((1 - t) * w) / sin w = sin (t * w) / sin w" by (simp only: e)
  qed
  have r: "FQuat_Slerp q1 q2 t =
      Some (FQuat_combine (sin ((1 - t) * w) / sin w) q1 (FQuat_sign q1 q2 * (sin (t * w) / sin w)) q2)"
    using FQuat_Slerp_slerp [OF u1 u2 True, of t] by (simp add: w_def)
  have unit: "FQuat_dot (FQuat_combine (sin ((1 - t) * w) / sin w) q1 (FQuat_sign q1 q2 * (sin (t * w) / sin w)) q2)
      (FQuat_combine (sin ((1 - t) * w) / sin w) q1 (FQuat_sign q1 q2 * (sin (t * w) / sin w)) q2) = 1"
  proof -
    have sum: "(1 - t) * w + t * w = w" by (simp add: algebra_simps)
    have cw: "cos w = \<bar>FQuat_dot q1 q2\<bar>"
      using \<open>\<bar>FQuat_dot q1 q2\<bar> \<le> 1\<close> by (simp add: w_def)
    have "FQuat_dot (FQuat_combine (sin ((1 - t) * w) / sin w) q1 (FQuat_sign q1 q2 * (sin (t * w) / sin w)) q2)
      (FQuat_combine (sin ((1 - t) * w) / sin w) q1 (FQuat_sign q1 q2 * (sin (t * w) / sin w)) q2) =
        (sin ((1 - t) * w) / sin w) * (sin ((1 - t) * w) / sin w) +
        2 * (sin ((1 - t) * w) / sin w) * (sin (t * w) / sin w) * (FQuat_sign q1 q2 * FQuat_dot q1 q2) +
        (sin (t * w) / sin w) * (sin (t * w) / sin w) * (FQuat_sign q1 q2 * FQuat_sign q1 q2)"
      by (simp add: FQuat_dot_combine u1 u2 algebra_simps)
    also have "\<dots> = (sin ((1 - t) * w) * sin ((1 - t) * w) + sin (t * w) * sin (t * w) +
        2 * sin ((1 - t) * w) * sin (t * w) * cos ((1 - t) * w + t * w)) / (sin w * sin w)"
      unfolding sum cw FQuat_sign_dot FQuat_sign_square using sw by (simp add: field_simps)
    also have "\<dots> = sin w * sin w / (sin w * sin w)"
      using slerp_weights_unit [of "(1 - t) * w" "t * w"] by (simp only: sum)
    also have "\<dots> = 1" using sw by simp
    finally show ?thesis .
  qed
  from nn half r unit show ?thesis by blast
next
  case False
  define N where "N = (1 - t) * (1 - t) + 2 * (1 - t) * t * \<bar>FQuat_dot q1 q2\<bar> + t * t"
  have "0 \<le> \<bar>FQuat_dot q1 q2\<bar>" by simp
  from lerp_norm_bound [OF t this] have N: "0 < N" by (simp add: N_def)
  then have sN: "0 < sqrt N" by simp
  from t sN have nn: "0 \<le> (1 - t) / sqrt N" "0 \<le> t / sqrt N" by simp_all
  have half: "t = 1 / 2 \<longrightarrow> (1 - t) / sqrt N = t / sqrt N"
  proof
    assume "t = 1 / 2"
    then have e: "1 - t = t" by simp
    show "(1 - t) / sqrt N = t / sqrt N" by (simp only: e)
  qed
  have r: "FQuat_Slerp q1 q2 t =
      Some (FQuat_combine ((1 - t) / sqrt N) q1 (FQuat_sign q1 q2 * (t / sqrt N)) q2)"
    using FQuat_Slerp_lerp [OF u1 u2 False t] by (simp add: N_def)
  have "FQuat_dot (FQuat_combine ((1 - t) / sqrt N) q1 (FQuat_sign q1 q2 * (t / sqrt N)) q2)
      (FQuat_combine ((1 - t) / sqrt N) q1 (FQuat_sign q1 q2 * (t / sqrt N)) q2) =
      ((1 - t) / sqrt N) * ((1 - t) / sqrt N) +
      2 * ((1 - t) / sqrt N) * (t / sqrt N) * (FQuat_sign q1 q2 * FQuat_dot q1 q2) +
      (t / sqrt N) * (t / sqrt N) * (FQuat_sign q1 q2 * FQuat_sign q1 q2)"
    by (simp add: FQuat_dot_combine u1 u2 algebra_simps)
  also have "\<dots> = ((1 - t) * (1 - t) + 2 * (1 - t) * t * \<bar>FQuat_dot q1 q2\<bar> + t * t) /
      (sqrt N * sqrt N)"
    unfolding FQuat_sign_dot FQuat_sign_square using sN by (simp add: field_simps)
  also have "\<dots> = N / (sqrt N * sqrt N)" by (simp only: N_def [symmetric])
  also have "\<dots> = 1" using N by simp
  finally have unit: "FQuat_dot (FQuat_combine ((1 - t) / sqrt N) q1 (FQuat_sign q1 q2 * (t / sqrt N)) q2)
      (FQuat_combine ((1 - t) / sqrt N) q1 (FQuat_sign q1 q2 * (t / sqrt N)) q2) = 1" .
  from nn half r unit show ?thesis by blast
qed

lemma FQuat_combine_0_sign:
  "FQuat_combine 0 q1 (FQuat_sign q1 q2) q2 = (if FQuat_dot q1 q2 \<ge> 0 then q2 else FQuat_neg q2)"
  by (simp add: FQuat_combine_def FQuat_sign_def FQuat_neg_def)

lemma FQuat_Slerp_0:
  assumes u1: "FQuat_dot q1 q1 = 1" and u2: "FQuat_dot q2 q2 = 1"
  shows "FQuat_Slerp q1 q2 0 = Some q1"
proof (cases "\<bar>FQuat_dot q1 q2\<bar> < 0.9999")
  case True
  then have "- 1 < \<bar>FQuat_dot q1 q2\<bar>" "\<bar>FQuat_dot q1 q2\<bar> < 1" by simp_all
  then have "sin (arccos \<bar>FQuat_dot q1 q2\<bar>) \<noteq> 0" by (rule sin_arccos_nonzero)
  with FQuat_Slerp_slerp [OF u1 u2 True, of 0] show ?thesis
    by (simp add: FQuat_combine_id)
next
  case False
  from FQuat_Slerp_lerp [OF u1 u2 False, of 0] show ?thesis
    by (simp add: FQuat_combine_id)
qed

lemma FQuat_Slerp_1:
  assumes u1: "FQuat_dot q1 q1 = 1" and u2: "FQuat_dot q2 q2 = 1"
  shows "FQuat_Slerp q1 q2 1 = Some (if FQuat_dot q1 q2 \<ge> 0 then q2 else FQuat_neg q2)"
proof (cases "\<bar>FQuat_dot q1 q2\<bar> < 0.9999")
  case True
  then have "- 1 < \<bar>FQuat_dot q1 q2\<bar>" "\<bar>FQuat_dot q1 q2\<bar> < 1" by simp_all
  then have "sin (arccos \<bar>FQuat_dot q1 q2\<bar>) \<noteq> 0" by (rule sin_arccos_nonzero)
  with FQuat_Slerp_slerp [OF u1 u2 True, of 1]
  have "FQuat_Slerp q1 q2 1 = Some (FQuat_combine 0 q1 (FQuat_sign q1 q2) q2)" by simp
  then show ?thesis by (simp only: FQuat_combine_0_sign)
next
  case False
  from FQuat_Slerp_lerp [OF u1 u2 False, of 1]
  have "FQuat_Slerp q1 q2 1 = Some (FQuat_combine 0 q1 (FQuat_sign q1 q2) q2)" by simp
  then show ?thesis by (simp only: FQuat_combine_0_sign)
qed










lemma FMath_Atan2_neg:
  assumes "x \<noteq> 0 \<or> y \<noteq> 0"
  shows "FMath_Atan2 (- y) (- x) = FMath_Atan2 y x + pi \<or>
         FMath_Atan2 (- y) (- x) = FMath_Atan2 y x - pi"
  using assms by (auto simp: FMath_Atan2_def)

lemma FRotator_ClampAxis_floor:
  "FRotator_ClampAxis A = A - 360 * of_int \<lfloor>A / 360\<rfloor>"
proof (cases "A \<ge> 0")
  case True
  then have "A / 360 \<ge> 0" by simp
  then have f: "FMath_Fmod A 360 = A - 360 * of_int \<lfloor>A / 360\<rfloor>"
    by (simp add: FMath_Fmod_def FMath_TruncToFloat_def SMALL_NUMBER_def)
  have "of_int \<lfloor>A / 360\<rfloor> \<le> A / 360" by (rule of_int_floor_le)
  then have "\<not> A - 360 * of_int \<lfloor>A / 360\<rfloor> < 0" by (simp add: field_simps)
  with f show ?thesis by (simp add: FRotator_ClampAxis_def Let_def)
next
  case False
  then have neg: "\<not> A / 360 \<ge> 0" by simp
  then have f: "FMath_Fmod A 360 = A - 360 * of_int \<lceil>A / 360\<rceil>"
    by (simp add: FMath_Fmod_def FMath_TruncToFloat_def SMALL_NUMBER_def)
  show ?thesis
  proof (cases "A / 360 = of_int \<lfloor>A / 360\<rfloor>")
    case True
    then have c: "\<lceil>A / 360\<rceil> = \<lfloor>A / 360\<rfloor>" by (simp add: ceiling_altdef)
    from True have "A - 360 * of_int \<lfloor>A / 360\<rfloor> = 0" by (simp add: field_simps)
    with f c show ?thesis by (simp add: FRotator_ClampAxis_def Let_def)
  next
    case False
    then have c: "\<lceil>A / 360\<rceil> = \<lfloor>A / 360\<rfloor> + 1" by (simp add: ceiling_altdef)
    have "A / 360 < of_int \<lfloor>A / 360\<rfloor> + 1" by linarith
    then have "A - 360 * of_int \<lfloor>A / 360\<rfloor> - 360 < 0" by (simp add: field_simps)
    with f c show ?thesis by (simp add: FRotator_ClampAxis_def Let_def algebra_simps)
  qed
qed

lemma FRotator_ClampAxis_periodic:
  "FRotator_ClampAxis (A + 360) = FRotator_ClampAxis A"
  "FRotator_ClampAxis (A - 360) = FRotator_ClampAxis A"
proof -
  have "(A + 360) / 360 = A / 360 + of_int 1" by (simp add: field_simps)
  then have "\<lfloor>(A + 360) / 360\<rfloor> = \<lfloor>A / 360 + of_int 1\<rfloor>" by (simp only:)
  also have "\<dots> = \<lfloor>A / 360\<rfloor> + 1" by (simp only: floor_add_int)
  finally have "\<lfloor>(A + 360) / 360\<rfloor> = \<lfloor>A / 360\<rfloor> + 1" .
  then show "FRotator_ClampAxis (A + 360) = FRotator_ClampAxis A"
    by (simp add: FRotator_ClampAxis_floor algebra_simps)
  have "(A - 360) / 360 = A / 360 - of_int 1" by (simp add: field_simps)
  then have "\<lfloor>(A - 360) / 360\<rfloor> = \<lfloor>A / 360 - of_int 1\<rfloor>" by (simp only:)
  also have "\<dots> = \<lfloor>A / 360\<rfloor> - 1" by (simp only: floor_diff_of_int)
  finally have "\<lfloor>(A - 360) / 360\<rfloor> = \<lfloor>A / 360\<rfloor> - 1" .
  then show "FRotator_ClampAxis (A - 360) = FRotator_ClampAxis A"
    by (simp add: FRotator_ClampAxis_floor algebra_simps)
qed

lemma FRotator_NormalizeAxis_periodic:
  "FRotator_NormalizeAxis (A + 360) = FRotator_NormalizeAxis A"
  "FRotator_NormalizeAxis (A - 360) = FRotator_NormalizeAxis A"
  by (simp_all add: FRotator_NormalizeAxis_def FRotator_ClampAxis_periodic)

lemma roll_neg:
  assumes "x \<noteq> 0 \<or> w \<noteq> 0"
  shows "FRotator_NormalizeAxis (Y0 - 2 * FMath_Atan2 (- x) (- w) * (180 / pi)) =
         FRotator_NormalizeAxis (Y0 - 2 * FMath_Atan2 x w * (180 / pi))"
proof -
  from FMath_Atan2_neg [of w x] assms
  consider "FMath_Atan2 (- x) (- w) = FMath_Atan2 x w + pi"
    | "FMath_Atan2 (- x) (- w) = FMath_Atan2 x w - pi" by blast
  then show ?thesis
  proof cases
    case 1
    have "Y0 - 2 * (FMath_Atan2 x w + pi) * (180 / pi) =
          (Y0 - 2 * FMath_Atan2 x w * (180 / pi)) - 360"
      by (simp add: field_simps)
    with 1 show ?thesis by (simp only: FRotator_NormalizeAxis_periodic)
  next
    case 2
    have "Y0 - 2 * (FMath_Atan2 x w - pi) * (180 / pi) =
          (Y0 - 2 * FMath_Atan2 x w * (180 / pi)) + 360"
      by (simp add: field_simps)
    with 2 show ?thesis by (simp only: FRotator_NormalizeAxis_periodic)
  qed
qed

lemma FQuat_Rotator_neg: "FQuat_Rotator (FQuat_neg Q) = FQuat_Rotator Q"
proof -
  define x y z w where "x = FQuat.X Q" and "y = FQuat.Y Q" and "z = FQuat.Z Q" and "w = FQuat.W Q"
  define T where "T = z * x - w * y"
  define Yw where "Yw = FMath_Atan2 (2 * (w * z + x * y)) (1 - 2 * (y * y + z * z)) * (180 / pi)"
  have nz: "x \<noteq> 0 \<or> w \<noteq> 0" if "T < - 0.4999995 \<or> T > 0.4999995"
  proof (rule ccontr)
    assume "\<not> (x \<noteq> 0 \<or> w \<noteq> 0)"
    then have "T = 0" by (simp add: T_def)
    with that show False by simp
  qed
  have l: "FQuat_Rotator Q =
     (if T < - 0.4999995
      then \<lparr>Pitch = - 90, Yaw = Yw,
            Roll = FRotator_NormalizeAxis (- Yw - 2 * FMath_Atan2 x w * (180 / pi))\<rparr>
      else if T > 0.4999995
      then \<lparr>Pitch = 90, Yaw = Yw,
            Roll = FRotator_NormalizeAxis (Yw - 2 * FMath_Atan2 x w * (180 / pi))\<rparr>
      else \<lparr>Pitch = arcsin (2 * T) * (180 / pi), Yaw = Yw,
            Roll = FMath_Atan2 (- 2 * (w * x + y * z)) (1 - 2 * (x * x + y * y)) * (180 / pi)\<rparr>)"
    by (simp add: FQuat_Rotator_def Let_def x_def y_def z_def w_def T_def Yw_def)
  have r: "FQuat_Rotator (FQuat_neg Q) =
     (if T < - 0.4999995
      then \<lparr>Pitch = - 90, Yaw = Yw,
            Roll = FRotator_NormalizeAxis (- Yw - 2 * FMath_Atan2 (- x) (- w) * (180 / pi))\<rparr>
      else if T > 0.4999995
      then \<lparr>Pitch = 90, Yaw = Yw,
            Roll = FRotator_NormalizeAxis (Yw - 2 * FMath_Atan2 (- x) (- w) * (180 / pi))\<rparr>
      else \<lparr>Pitch = arcsin (2 * T) * (180 / pi), Yaw = Yw,
            Roll = FMath_Atan2 (- 2 * (w * x + y * z)) (1 - 2 * (x * x + y * y)) * (180 / pi)\<rparr>)"
    by (simp add: FQuat_Rotator_def FQuat_neg_def Let_def x_def y_def z_def w_def T_def Yw_def)
  show ?thesis
  proof (cases "T < - 0.4999995 \<or> T > 0.4999995")
    case True
    from nz [OF True] show ?thesis unfolding l r by (simp only: roll_neg)
  next
    case False
    then show ?thesis unfolding l r by simp
  qed
qed

text \<open>The quaternions of the example rotators, and the rotators read back from them.\<close>

lemma FMath_Fmod_small:
  assumes "\<bar>x\<bar> < 360"
  shows "FMath_Fmod x 360 = x"
proof (cases "x \<ge> 0")
  case True
  with assms have "0 \<le> x / 360" "x / 360 < 1" by simp_all
  then have "\<lfloor>x / 360\<rfloor> = 0" by (simp add: floor_eq_iff)
  with True show ?thesis
    by (simp add: FMath_Fmod_def FMath_TruncToFloat_def SMALL_NUMBER_def)
next
  case False
  with assms have "- 1 < x / 360" "x / 360 \<le> 0" "\<not> x / 360 \<ge> 0" by simp_all
  then have "\<lceil>x / 360\<rceil> = 0" by (simp add: ceiling_eq_iff)
  with False show ?thesis
    by (simp add: FMath_Fmod_def FMath_TruncToFloat_def SMALL_NUMBER_def)
qed

lemma FRotator_Quaternion_yaw_only:
  assumes "\<bar>y\<bar> < 360"
  shows "FRotator_Quaternion (yaw_only y) =
     \<lparr>FQuat.X = 0, FQuat.Y = 0, FQuat.Z = sin (y * pi / 360), FQuat.W = cos (y * pi / 360)\<rparr>"
proof -
  have "FMath_Fmod 0 360 = 0" by (rule FMath_Fmod_small) simp
  moreover have "y * (pi / 180 / 2) = y * pi / 360" by simp
  ultimately show ?thesis
    by (simp add: FRotator_Quaternion_def yaw_only_def Let_def FMath_Fmod_small [OF assms])
qed

lemma Quaternion_yaw_0:
  "FRotator_Quaternion (yaw_only 0) = \<lparr>FQuat.X = 0, FQuat.Y = 0, FQuat.Z = 0, FQuat.W = 1\<rparr>"
  using FRotator_Quaternion_yaw_only [of 0] by simp

lemma Quaternion_yaw_180:
  "FRotator_Quaternion (yaw_only 180) = \<lparr>FQuat.X = 0, FQuat.Y = 0, FQuat.Z = 1, FQuat.W = 0\<rparr>"
  using FRotator_Quaternion_yaw_only [of 180] by simp

lemma Quaternion_yaw_90:
  "FRotator_Quaternion (yaw_only 90) =
     \<lparr>FQuat.X = 0, FQuat.Y = 0, FQuat.Z = sqrt 2 / 2, FQuat.W = sqrt 2 / 2\<rparr>"
proof -
  have "90 * pi / 360 = pi / 4" by simp
  with FRotator_Quaternion_yaw_only [of 90] show ?thesis by (simp add: sin_45 cos_45)
qed


lemma Rotator_yaw_0:
  "FQuat_Rotator \<lparr>FQuat.X = 0, FQuat.Y = 0, FQuat.Z = 0, FQuat.W = 1\<rparr> = yaw_only 0"
  by (simp add: FQuat_Rotator_def Let_def FMath_Atan2_def yaw_only_def)

lemma Rotator_yaw_180:
  "FQuat_Rotator \<lparr>FQuat.X = 0, FQuat.Y = 0, FQuat.Z = 1, FQuat.W = 0\<rparr> = yaw_only 180"
  by (simp add: FQuat_Rotator_def Let_def FMath_Atan2_def yaw_only_def)

lemma Rotator_yaw_90:
  "FQuat_Rotator \<lparr>FQuat.X = 0, FQuat.Y = 0, FQuat.Z = sqrt 2 / 2, FQuat.W = sqrt 2 / 2\<rparr> = yaw_only 90"
  by (simp add: FQuat_Rotator_def Let_def FMath_Atan2_def yaw_only_def)

























lemma FMath_Clamp_unit:
  "0 \<le> FMath_Clamp x 0 1" "FMath_Clamp x 0 1 \<le> 1"
  "x \<le> 0 \<Longrightarrow> FMath_Clamp x 0 1 = 0" "1 \<le> x \<Longrightarrow> FMath_Clamp x 0 1 = 1"
  "0 \<le> x \<Longrightarrow> x \<le> 1 \<Longrightarrow> FMath_Clamp x 0 1 = x"
  by (auto simp: FMath_Clamp_def)

lemma SmoothRotatorInterp_Slerp:
  "SmoothRotatorInterp Current Target DeltaTime InterpSpeed =
     map_option FQuat_Rotator
       (FQuat_Slerp (FRotator_Quaternion Current) (FRotator_Quaternion Target)
          (FMath_Clamp (DeltaTime * InterpSpeed) 0 1))"
  by (cases "FQuat_Slerp (FRotator_Quaternion Current) (FRotator_Quaternion Target)
          (FMath_Clamp (DeltaTime * InterpSpeed) 0 1)")
     (simp_all add: SmoothRotatorInterp_def Let_def)

lemma SmoothRotatorInterp_at_0:
  assumes "DeltaTime * InterpSpeed \<le> 0"
  shows "FQuat_Slerp (FRotator_Quaternion Current) (FRotator_Quaternion Target)
           (FMath_Clamp (DeltaTime * InterpSpeed) 0 1) = Some (FRotator_Quaternion Current)"
    and "SmoothRotatorInterp Current Target DeltaTime InterpSpeed =
           Some (FQuat_Rotator (FRotator_Quaternion Current))"
proof -
  from assms have "FMath_Clamp (DeltaTime * InterpSpeed) 0 1 = 0" by (rule FMath_Clamp_unit)
  then show "FQuat_Slerp (FRotator_Quaternion Current) (FRotator_Quaternion Target)
           (FMath_Clamp (DeltaTime * InterpSpeed) 0 1) = Some (FRotator_Quaternion Current)"
    by (simp add: FQuat_Slerp_0 FRotator_Quaternion_unit)
  then show "SmoothRotatorInterp Current Target DeltaTime InterpSpeed =
           Some (FQuat_Rotator (FRotator_Quaternion Current))"
    by (simp add: SmoothRotatorInterp_Slerp)
qed

lemma SmoothRotatorInterp_at_1:
  assumes "1 \<le> DeltaTime * InterpSpeed"
  shows "FQuat_Slerp (FRotator_Quaternion Current) (FRotator_Quaternion Target)
           (FMath_Clamp (DeltaTime * InterpSpeed) 0 1) =
         Some (if FQuat_dot (FRotator_Quaternion Current) (FRotator_Quaternion Target) \<ge> 0
               then FRotator_Quaternion Target else FQuat_neg (FRotator_Quaternion Target))"
    and "SmoothRotatorInterp Current Target DeltaTime InterpSpeed =
           Some (FQuat_Rotator (FRotator_Quaternion Target))"
proof -
  from assms have "FMath_Clamp (DeltaTime * InterpSpeed) 0 1 = 1" by (rule FMath_Clamp_unit)
  then show s: "FQuat_Slerp (FRotator_Quaternion Current) (FRotator_Quaternion Target)
           (FMath_Clamp (DeltaTime * InterpSpeed) 0 1) =
         Some (if FQuat_dot (FRotator_Quaternion Current) (FRotator_Quaternion Target) \<ge> 0
               then FRotator_Quaternion Target else FQuat_neg (FRotator_Quaternion Target))"
    by (simp only: FQuat_Slerp_1 [OF FRotator_Quaternion_unit FRotator_Quaternion_unit])
  show "SmoothRotatorInterp Current Target DeltaTime InterpSpeed =
           Some (FQuat_Rotator (FRotator_Quaternion Target))"
    unfolding SmoothRotatorInterp_Slerp s by (simp add: FQuat_Rotator_neg)
qed

text \<open>No infinity and no NaN arises in \<open>SmoothRotatorInterp\<close>: it is total.\<close>

lemma SmoothRotatorInterp_finite:
  "\<exists>R. SmoothRotatorInterp Current Target DeltaTime InterpSpeed = Some R"
proof -
  from FQuat_Slerp_shape [OF FRotator_Quaternion_unit FRotator_Quaternion_unit FMath_Clamp_unit(1,2)]
  obtain q where "FQuat_Slerp (FRotator_Quaternion Current) (FRotator_Quaternion Target)
      (FMath_Clamp (DeltaTime * InterpSpeed) 0 1) = Some q"
    by blast
  then show ?thesis by (simp add: SmoothRotatorInterp_Slerp)
qed

text \<open>
  Claim C6, amended. \<open>SmoothRotatorInterp\<close> interpolates between the quaternions of \<open>Current\<close>
  and \<open>Target\<close> with the parameter \<^verbatim>\<open>FMath::Clamp(DeltaTime * InterpSpeed, 0, 1)\<close> and returns the
  rotator read back from the interpolated quaternion. When \<open>DeltaTime * InterpSpeed \<le> 0\<close> the
  interpolated quaternion is the quaternion of \<open>Current\<close>, and the result is the rotator read
  back from it. When \<open>DeltaTime * InterpSpeed \<ge> 1\<close> the interpolated quaternion is the quaternion
  of \<open>Target\<close> or its negation, which denotes the same orientation, and the result is the
  rotator read back from the quaternion of \<open>Target\<close>. Only the product is clamped: with
  \<open>DeltaTime\<close> and \<open>InterpSpeed\<close> both negative the product is positive and the result leaves
  \<open>Current\<close>.
\<close>

theorem SmoothRotatorInterp_endpoints:
  "SmoothRotatorInterp Current Target DeltaTime InterpSpeed =
     map_option FQuat_Rotator
       (FQuat_Slerp (FRotator_Quaternion Current) (FRotator_Quaternion Target)
          (FMath_Clamp (DeltaTime * InterpSpeed) 0 1)) \<and>
   (DeltaTime * InterpSpeed \<le> 0 \<longrightarrow>
      FQuat_Slerp (FRotator_Quaternion Current) (FRotator_Quaternion Target)
        (FMath_Clamp (DeltaTime * InterpSpeed) 0 1) = Some (FRotator_Quaternion Current) \<and>
      SmoothRotatorInterp Current Target DeltaTime InterpSpeed =
        Some (FQuat_Rotator (FRotator_Quaternion Current))) \<and>
   (1 \<le> DeltaTime * InterpSpeed \<longrightarrow>
      (\<exists>q. FQuat_Slerp (FRotator_Quaternion Current) (FRotator_Quaternion Target)
             (FMath_Clamp (DeltaTime * InterpSpeed) 0 1) = Some q \<and>
           (q = FRotator_Quaternion Target \<or> q = FQuat_neg (FRotator_Quaternion Target))) \<and>
      SmoothRotatorInterp Current Target DeltaTime InterpSpeed =
        Some (FQuat_Rotator (FRotator_Quaternion Target)))"
proof (intro conjI impI)
  show "SmoothRotatorInterp Current Target DeltaTime InterpSpeed =
     map_option FQuat_Rotator
       (FQuat_Slerp (FRotator_Quaternion Current) (FRotator_Quaternion Target)
          (FMath_Clamp (DeltaTime * InterpSpeed) 0 1))"
    by (rule SmoothRotatorInterp_Slerp)
next
  assume "DeltaTime * InterpSpeed \<le> 0"
  then show "FQuat_Slerp (FRotator_Quaternion Current) (FRotator_Quaternion Target)
        (FMath_Clamp (DeltaTime * InterpSpeed) 0 1) = Some (FRotator_Quaternion Current)"
    by (rule SmoothRotatorInterp_at_0)
next
  assume "DeltaTime * InterpSpeed \<le> 0"
  then show "SmoothRotatorInterp Current Target DeltaTime InterpSpeed =
        Some (FQuat_Rotator (FRotator_Quaternion Current))"
    by (rule SmoothRotatorInterp_at_0)
next
  assume "1 \<le> DeltaTime * InterpSpeed"
  from SmoothRotatorInterp_at_1(1) [OF this, of Current Target]
  show "\<exists>q. FQuat_Slerp (FRotator_Quaternion Current) (FRotator_Quaternion Target)
             (FMath_Clamp (DeltaTime * InterpSpeed) 0 1) = Some q \<and>
           (q = FRotator_Quaternion Target \<or> q = FQuat_neg (FRotator_Quaternion Target))"
    by (cases "FQuat_dot (FRotator_Quaternion Current) (FRotator_Quaternion Target) \<ge> 0") simp_all
next
  assume "1 \<le> DeltaTime * InterpSpeed"
  then show "SmoothRotatorInterp Current Target DeltaTime InterpSpeed =
        Some (FQuat_Rotator (FRotator_Quaternion Target))"
    by (rule SmoothRotatorInterp_at_1)
qed

theorem SmoothRotatorInterp_endpoints_witness:
  "SmoothRotatorInterp (yaw_only 0) (yaw_only 90) 0 1 = Some (yaw_only 0) \<and>
   SmoothRotatorInterp (yaw_only 0) (yaw_only 90) 1 1 = Some (yaw_only 90)"
proof -
  have lo: "(0::real) * 1 \<le> 0" and hi: "(1::real) \<le> 1 * 1" by simp_all
  from SmoothRotatorInterp_endpoints [of "yaw_only 0" "yaw_only 90" 0 1] lo
  have "SmoothRotatorInterp (yaw_only 0) (yaw_only 90) 0 1 =
          Some (FQuat_Rotator (FRotator_Quaternion (yaw_only 0)))" by blast
  moreover from SmoothRotatorInterp_endpoints [of "yaw_only 0" "yaw_only 90" 1 1] hi
  have "SmoothRotatorInterp (yaw_only 0) (yaw_only 90) 1 1 =
          Some (FQuat_Rotator (FRotator_Quaternion (yaw_only 90)))" by blast
  ultimately show ?thesis
    by (simp only: Quaternion_yaw_0 Quaternion_yaw_90 Rotator_yaw_0 Rotator_yaw_90 simp_thms)
qed

theorem SmoothRotatorInterp_endpoints_counterexample:
  "((- 1 :: real) \<le> 0 \<or> (- 1 :: real) \<le> 0) \<and>
   SmoothRotatorInterp (yaw_only 0) (yaw_only 180) (- 1) (- 1) = Some (yaw_only 180) \<and>
   FQuat_Slerp (FRotator_Quaternion (yaw_only 0)) (FRotator_Quaternion (yaw_only 180))
     (FMath_Clamp (- 1 * - 1) 0 1) = Some (FRotator_Quaternion (yaw_only 180)) \<and>
   FQuat_AngularDistance (FRotator_Quaternion (yaw_only 180)) (FRotator_Quaternion (yaw_only 0)) = pi \<and>
   FQuat_Rotator (FRotator_Quaternion (yaw_only 0)) = yaw_only 0 \<and>
   yaw_only 180 \<noteq> yaw_only 0"
proof -
  have one: "(1::real) \<le> - 1 * - 1" by simp
  have d: "FQuat_dot (FRotator_Quaternion (yaw_only 0)) (FRotator_Quaternion (yaw_only 180)) = 0"
    by (simp add: Quaternion_yaw_0 Quaternion_yaw_180 FQuat_dot_def)
  from SmoothRotatorInterp_at_1 [OF one, of "yaw_only 0" "yaw_only 180"] d
  have "SmoothRotatorInterp (yaw_only 0) (yaw_only 180) (- 1) (- 1) = Some (yaw_only 180)"
    and "FQuat_Slerp (FRotator_Quaternion (yaw_only 0)) (FRotator_Quaternion (yaw_only 180))
     (FMath_Clamp (- 1 * - 1) 0 1) = Some (FRotator_Quaternion (yaw_only 180))"
    by (simp_all add: Quaternion_yaw_180 Rotator_yaw_180)
  moreover have "FQuat_AngularDistance (FRotator_Quaternion (yaw_only 180))
      (FRotator_Quaternion (yaw_only 0)) = pi"
    by (simp add: Quaternion_yaw_0 Quaternion_yaw_180 FQuat_AngularDistance_def FQuat_dot_def)
  moreover have "FQuat_Rotator (FRotator_Quaternion (yaw_only 0)) = yaw_only 0"
    by (simp add: Quaternion_yaw_0 Rotator_yaw_0)
  moreover have "yaw_only 180 \<noteq> yaw_only 0" by (simp add: yaw_only_def)
  ultimately show ?thesis by simp
qed





end
